theory Spec2Isabelle
  imports Complex_Main "HOL-Library.Char_ord" "HOL-Library.List_Lexorder"
begin

section \<open>Wafer index manager: a model of \<open>outer_layer_manager.py\<close>\<close>

text \<open>
  The program keeps one global SQLite index (\<open>wafer_metadata\<close>) and, in every wafer
  folder, one SQLite detail database (\<open>database.db\<close>, table \<open>defect_info\<close>) built from
  the folder's \<open>raw_data.txt\<close>. The model passes the state explicitly: the rows of the
  index table and a file system that maps a folder path to the files the program looks at.

  Conventions of the model.
  \<^item> Characters are code points below 256; the report is the list of lines that iterating
    the text file yields.
  \<^item> \<open>os.remove\<close>, \<open>os.makedirs\<close> and the SQLite statements succeed whenever the file
    system and the schema allow them (no permission or disk fault).
  \<^item> \<open>datetime.now()\<close> is a parameter \<open>now\<close> of every operation that stamps a time.
  \<^item> The program's message texts are Chinese literals; each one is a constructor of
    \<open>message\<close>, named after its meaning.
\<close>

subsection \<open>Python text primitives\<close>

definition isspace :: "char \<Rightarrow> bool" where
  \<comment> \<open>\<open>str.isspace\<close> on code points below 256\<close>
  "isspace c = (c \<in> set [CHR 0x09, CHR 0x0A, CHR 0x0B, CHR 0x0C, CHR 0x0D,
                           CHR 0x1C, CHR 0x1D, CHR 0x1E, CHR 0x1F, CHR 0x20,
                           CHR 0x85, CHR 0xA0])"

definition strip :: "string \<Rightarrow> string" where
  "strip s = rev (dropWhile isspace (rev (dropWhile isspace s)))"

definition startswith_hash :: "string \<Rightarrow> bool" where
  \<comment> \<open>\<open>s.startswith('#')\<close>\<close>
  "startswith_hash s = (case s of [] \<Rightarrow> False | c # _ \<Rightarrow> c = CHR ''#'')"

fun split_comma :: "string \<Rightarrow> string list" where
  \<comment> \<open>\<open>s.split(',')\<close>: always at least one part\<close>
  "split_comma [] = [[]]"
| "split_comma (c # cs) =
     (if c = CHR '','' then [] # split_comma cs
      else (case split_comma cs of
              [] \<Rightarrow> [[c]]
            | p # ps \<Rightarrow> (c # p) # ps))"

definition isdigit :: "char \<Rightarrow> bool" where
  "isdigit c = (c \<in> set ''0123456789'')"

definition digit_value :: "char \<Rightarrow> int" where
  "digit_value c = int (length (takeWhile (\<lambda>d. d \<noteq> c) ''0123456789''))"

fun parse_digits :: "int \<Rightarrow> string \<Rightarrow> int option" where
  \<comment> \<open>the digits after the first one; a single underscore may separate two digits\<close>
  "parse_digits acc [] = Some acc"
| "parse_digits acc (c # cs) =
     (if isdigit c then parse_digits (10 * acc + digit_value c) cs
      else if c = CHR ''_'' then
        (case cs of
           [] \<Rightarrow> None
         | d # ds \<Rightarrow> if isdigit d then parse_digits (10 * acc + digit_value d) ds else None)
      else None)"

definition parse_unsigned :: "string \<Rightarrow> int option" where
  "parse_unsigned s =
     (case s of
        [] \<Rightarrow> None
      | c # cs \<Rightarrow> if isdigit c then parse_digits (digit_value c) cs else None)"

definition py_int :: "string \<Rightarrow> int option" where
  \<comment> \<open>\<open>int(s)\<close> on a stripped string; \<open>None\<close> is \<open>ValueError\<close>. The limit of recent
      Python versions on the number of digits is not modelled.\<close>
  "py_int s =
     (case s of
        [] \<Rightarrow> None
      | c # cs \<Rightarrow>
          if c = CHR ''-'' then map_option uminus (parse_unsigned cs)
          else if c = CHR ''+'' then parse_unsigned cs
          else parse_unsigned s)"

function digits10 :: "int \<Rightarrow> string" where
  "digits10 n =
     (if n < 10 then [''0123456789'' ! nat n]
      else digits10 (n div 10) @ [''0123456789'' ! nat (n mod 10)])"
  by pat_completeness auto
termination
  by (relation "measure nat") auto

declare digits10.simps [simp del]

definition str_int :: "int \<Rightarrow> string" where
  \<comment> \<open>\<open>str(i)\<close>\<close>
  "str_int i = (if i < 0 then CHR ''-'' # digits10 (- i) else digits10 i)"

definition basename :: "string \<Rightarrow> string" where
  \<comment> \<open>\<open>os.path.basename\<close> with separator \<open>/\<close>\<close>
  "basename p = rev (takeWhile (\<lambda>c. c \<noteq> CHR ''/'') (rev p))"

subsection \<open>Python floats\<close>

text \<open>
  A finite IEEE-754 binary64 value is a pair \<open>(m, e)\<close> standing for \<open>m * 2 ^ e\<close>.
  Every operation computes the exact rational result and rounds it to the nearest
  representable value, ties to even, as the hardware and CPython do. Only the three
  operations of the progress formula are needed: \<open>int / int\<close>, \<open>float * 100\<close> and
  \<open>round(float, 2)\<close>. Overflow is not modelled: the operands are row counts with
  \<open>labeled \<le> total\<close>, so no intermediate value exceeds 100.
\<close>

type_synonym double = "int \<times> int"

definition dvalue :: "double \<Rightarrow> rat" where
  \<comment> \<open>the number a double stands for\<close>
  "dvalue x =
     (if 0 \<le> snd x then of_int (fst x * 2 ^ nat (snd x))
      else of_int (fst x) / of_int (2 ^ nat (- snd x)))"

function bit_length :: "int \<Rightarrow> int" where
  "bit_length n = (if n \<le> 0 then 0 else 1 + bit_length (n div 2))"
  by pat_completeness auto
termination
  by (relation "measure nat") auto

declare bit_length.simps [simp del]

definition shift_ratio :: "int \<Rightarrow> int \<Rightarrow> int \<Rightarrow> int \<times> int" where
  \<comment> \<open>numerator and denominator of \<open>n / d * 2 ^ s\<close>\<close>
  "shift_ratio n d s = (if 0 \<le> s then (n * 2 ^ nat s, d) else (n, d * 2 ^ nat (- s)))"

definition div_half_even :: "int \<Rightarrow> int \<Rightarrow> int" where
  \<comment> \<open>\<open>n / d\<close> rounded to the nearest integer, ties to even (\<open>0 \<le> n\<close>, \<open>0 < d\<close>)\<close>
  "div_half_even n d =
     (let q = n div d; r = n mod d
      in if 2 * r < d then q
         else if d < 2 * r then q + 1
         else if even q then q else q + 1)"

definition binade :: "int \<Rightarrow> int \<Rightarrow> int" where
  \<comment> \<open>the \<open>k\<close> with \<open>2 ^ k \<le> n / d < 2 ^ (k + 1)\<close>, for positive \<open>n\<close> and \<open>d\<close>\<close>
  "binade n d =
     (let k = bit_length n - bit_length d
      in if snd (shift_ratio n d (- k)) \<le> fst (shift_ratio n d (- k)) then k else k - 1)"

definition nearest_double :: "int \<Rightarrow> int \<Rightarrow> double" where
  \<comment> \<open>the double nearest to \<open>n / d\<close>, for \<open>0 < d\<close>: 53 significant bits, subnormals below \<open>2 ^ -1022\<close>\<close>
  "nearest_double n d =
     (if n = 0 then (0, 0)
      else let e = max (binade \<bar>n\<bar> d) (- 1022)
           in (sgn n * div_half_even (fst (shift_ratio \<bar>n\<bar> d (52 - e)))
                                     (snd (shift_ratio \<bar>n\<bar> d (52 - e))),
               e - 52))"

definition nearest_scaled :: "int \<Rightarrow> int \<Rightarrow> double" where
  \<comment> \<open>the double nearest to \<open>m * 2 ^ e\<close>\<close>
  "nearest_scaled m e =
     (if 0 \<le> e then nearest_double (m * 2 ^ nat e) 1 else nearest_double m (2 ^ nat (- e)))"

definition round_scaled :: "int \<Rightarrow> int \<Rightarrow> int" where
  \<comment> \<open>\<open>m * 2 ^ e\<close> rounded to the nearest integer, ties to even\<close>
  "round_scaled m e =
     (if 0 \<le> e then m * 2 ^ nat e else sgn m * div_half_even \<bar>m\<bar> (2 ^ nat (- e)))"

datatype exn_class =
    Exception | ValueError | ZeroDivisionError | OverflowError | FileNotFoundError
  | OperationalError | IntegrityError

datatype message =
    Raw_data_missing            \<comment> \<open>"raw_data.txt does not exist"\<close>
  | Images_missing              \<comment> \<open>"bright/dark field image file missing"\<close>
  | Raw_data_empty              \<comment> \<open>"raw_data.txt is empty or malformed"\<close>
  | Inner_db_create_failed      \<comment> \<open>"creating the inner database failed"\<close>
  | Table_incomplete            \<comment> \<open>"database table structure incomplete"\<close>
  | Create_db_failed message    \<comment> \<open>"creating the database failed: " + str(e)\<close>
  | Sync_failed message         \<comment> \<open>"sync failed: " + str(e)\<close>
  | Wafer_not_found             \<comment> \<open>"wafer does not exist"\<close>
  | Inner_db_missing            \<comment> \<open>"inner database does not exist"\<close>
  | No_exportable_wafer         \<comment> \<open>"no exportable wafer found"\<close>
  | Label_saved                 \<comment> \<open>"label saved"\<close>
  | Values_for_columns nat nat  \<comment> \<open>SQLite: "9 values for 8 columns"\<close>
  | Unique_failed string        \<comment> \<open>SQLite: "UNIQUE constraint failed: wafer_metadata.<column>"\<close>
  | No_such_table string        \<comment> \<open>SQLite: "no such table: <name>"\<close>
  | Unable_to_open              \<comment> \<open>SQLite: "unable to open database file"\<close>
  | Int_too_large               \<comment> \<open>"Python int too large to convert to SQLite INTEGER"\<close>
  | No_such_file                \<comment> \<open>"No such file or directory"\<close>
  | Division_by_zero            \<comment> \<open>"division by zero"\<close>

type_synonym exn = "exn_class \<times> message"

definition str_exn :: "exn \<Rightarrow> message" where
  \<comment> \<open>\<open>str(e)\<close>\<close>
  "str_exn e = snd e"

definition int_truediv :: "int \<Rightarrow> int \<Rightarrow> exn + double" where
  \<comment> \<open>\<open>a / b\<close> on Python ints: correctly rounded, \<open>ZeroDivisionError\<close> on a zero divisor\<close>
  "int_truediv a b =
     (if b = 0 then Inl (ZeroDivisionError, Division_by_zero)
      else Inr (nearest_double (sgn b * a) \<bar>b\<bar>))"

definition float_mul_int :: "double \<Rightarrow> int \<Rightarrow> double" where
  \<comment> \<open>\<open>x * c\<close> for a float \<open>x\<close> and a small int \<open>c\<close>\<close>
  "float_mul_int x c = nearest_scaled (fst x * c) (snd x)"

definition py_round2 :: "double \<Rightarrow> double" where
  \<comment> \<open>\<open>round(x, 2)\<close>: the exact value rounded half-even to hundredths, then to a double\<close>
  "py_round2 x = nearest_double (round_scaled (fst x * 100) (snd x)) 100"

subsection \<open>The two stores and the file system\<close>

type_synonym timestamp = nat

record defect =
  defect_id :: string
  center_x :: int
  center_y :: int
  ai_adc_type :: int
  adc_type :: "int option"
  severity :: "string option"
  comment :: "string option"
  label_time :: "timestamp option"
  label_count :: "int option"

text \<open>
  A \<open>defect_info\<close> table: the names of its columns and its rows in rowid order. A field
  of a row is \<open>None\<close> for SQL \<open>NULL\<close>; the fields of a column the table does not have
  are \<open>None\<close> and are never read.
\<close>

record defect_info =
  columns :: "string list"
  rows :: "defect list"

text \<open>
  A wafer folder. \<open>database\<close> is \<open>None\<close> when \<open>database.db\<close> does not exist,
  \<open>Some None\<close> when the file exists and holds no \<open>defect_info\<close> table (what
  \<open>sqlite3.connect\<close> leaves when it has to create the file), and \<open>Some (Some t)\<close> otherwise.
\<close>

record folder =
  raw_data :: "string list option"
  bright_field :: bool
  dark_field :: bool
  database :: "defect_info option option"

record wafer =
  wafer_id :: string
  wafer_name :: string
  folder_path :: string
  total_defects :: int
  labeled_defects :: int
  progress :: rat
  label_status :: int
  parsed_status :: int
  parse_error :: "message option"
  last_operated :: timestamp
  create_time :: timestamp

record world =
  index :: "wafer list"
  fs :: "string \<Rightarrow> folder option"

definition empty_folder :: folder where
  "empty_folder = \<lparr>raw_data = None, bright_field = False, dark_field = False, database = None\<rparr>"

definition database_of :: "(string \<Rightarrow> folder option) \<Rightarrow> string \<Rightarrow> defect_info option option" where
  \<comment> \<open>what is at \<open>os.path.join(folder_path, 'database.db')\<close>\<close>
  "database_of files p = (case files p of None \<Rightarrow> None | Some f \<Rightarrow> database f)"

definition raw_data_of :: "(string \<Rightarrow> folder option) \<Rightarrow> string \<Rightarrow> string list option" where
  "raw_data_of files p = (case files p of None \<Rightarrow> None | Some f \<Rightarrow> raw_data f)"

definition remove_database :: "string \<Rightarrow> (string \<Rightarrow> folder option) \<Rightarrow> (string \<Rightarrow> folder option)" where
  \<comment> \<open>\<open>if os.path.exists(inner_db_path): os.remove(inner_db_path)\<close>\<close>
  "remove_database p files =
     (case files p of
        None \<Rightarrow> files
      | Some f \<Rightarrow> files(p \<mapsto> f\<lparr>database := None\<rparr>))"

subsection \<open>\<open>_create_inner_database\<close>\<close>

definition base_columns :: "string list" where
  "base_columns = [''defect_id'', ''center_x'', ''center_y'', ''ai_adc_type'', ''adc_type'']"

definition filtered_lines :: "string list \<Rightarrow> string list" where
  \<comment> \<open>\<open>[line.strip() for line in f if line.strip() and not line.strip().startswith('#')]\<close>\<close>
  "filtered_lines raw =
     map strip (filter (\<lambda>line. strip line \<noteq> [] \<and> \<not> startswith_hash (strip line)) raw)"

definition parse_line :: "string \<Rightarrow> defect option" where
  \<comment> \<open>the body of the loop over \<open>data_lines\<close>: \<open>None\<close> when the line is skipped\<close>
  "parse_line line =
     (let parts = split_comma line
      in if 4 \<le> length parts then
           (if strip (parts ! 0) = [] then None
            else (case py_int (strip (parts ! 1)) of
                    None \<Rightarrow> None
                  | Some x \<Rightarrow>
                     (case py_int (strip (parts ! 2)) of
                        None \<Rightarrow> None
                      | Some y \<Rightarrow>
                         (case py_int (strip (parts ! 3)) of
                            None \<Rightarrow> None
                          | Some a \<Rightarrow>
                              Some \<lparr>defect_id = strip (parts ! 0), center_x = x, center_y = y,
                                    ai_adc_type = a, adc_type = None, severity = None,
                                    comment = None, label_time = None, label_count = None\<rparr>))))
         else None)"

definition insert_data_of :: "string list \<Rightarrow> defect list" where
  \<comment> \<open>\<open>insert_data\<close>: the rows of the data lines that parse, in line order\<close>
  "insert_data_of data_lines = List.map_filter parse_line data_lines"

definition sqlite_integer :: "int \<Rightarrow> bool" where
  \<comment> \<open>the values the \<open>sqlite3\<close> module can bind as INTEGER\<close>
  "sqlite_integer i = (- (2 ^ 63) \<le> i \<and> i < 2 ^ 63)"

definition bindable :: "defect \<Rightarrow> bool" where
  "bindable d = (sqlite_integer (center_x d) \<and> sqlite_integer (center_y d)
                 \<and> sqlite_integer (ai_adc_type d))"

definition insert_or_replace :: "defect list \<Rightarrow> defect \<Rightarrow> defect list" where
  \<comment> \<open>\<open>INSERT OR REPLACE\<close> on the primary key \<open>defect_id\<close>: the old row goes, the new
      row gets a fresh rowid\<close>
  "insert_or_replace rs d = filter (\<lambda>r. defect_id r \<noteq> defect_id d) rs @ [d]"

definition executemany_insert :: "defect list \<Rightarrow> exn + defect list" where
  "executemany_insert insert_data =
     (if list_all bindable insert_data then Inr (foldl insert_or_replace [] insert_data)
      else Inl (OverflowError, Int_too_large))"

definition import_raw_data :: "string list option \<Rightarrow> exn + defect_info option" where
  \<comment> \<open>the \<open>try\<close> block: \<open>Inl\<close> an exception, \<open>Inr None\<close> the early \<open>return\<close> on a report
      with no line, \<open>Inr (Some t)\<close> the committed table (\<open>actual_count\<close> is its row count)\<close>
  "import_raw_data raw =
     (case raw of
        None \<Rightarrow> Inl (FileNotFoundError, No_such_file)
      | Some file_lines \<Rightarrow>
          (let lines = filtered_lines file_lines
           in if lines = [] then Inr None
              else (case executemany_insert (insert_data_of (tl lines)) of
                      Inl e \<Rightarrow> Inl e
                    | Inr rs \<Rightarrow> Inr (Some \<lparr>columns = base_columns, rows = rs\<rparr>))))"

definition create_in_folder :: "folder \<Rightarrow> folder" where
  \<comment> \<open>the old database is removed; the \<open>finally\<close> clause removes the new file unless
      \<open>actual_count\<close> was reached and is not zero\<close>
  "create_in_folder f =
     (case import_raw_data (raw_data f) of
        Inl e \<Rightarrow> f\<lparr>database := None\<rparr>
      | Inr None \<Rightarrow> f\<lparr>database := None\<rparr>
      | Inr (Some t) \<Rightarrow>
          if length (rows t) = 0 then f\<lparr>database := None\<rparr>
          else f\<lparr>database := Some (Some t)\<rparr>)"

definition create_inner_database ::
  "string \<Rightarrow> int \<Rightarrow> (string \<Rightarrow> folder option) \<Rightarrow> (string \<Rightarrow> folder option)" where
  \<comment> \<open>\<open>_create_inner_database(folder_path, raw_data_path, defect_count)\<close>; every caller
      passes \<open>raw_data_path = folder_path/raw_data.txt\<close>, and \<open>defect_count\<close> is not used\<close>
  "create_inner_database p defect_count files =
     (case files p of
        None \<Rightarrow> files(p \<mapsto> create_in_folder empty_folder)
      | Some f \<Rightarrow> files(p \<mapsto> create_in_folder f))"

subsection \<open>The index table \<open>wafer_metadata\<close>\<close>

datatype sqlval = SNull | SInt int | SReal rat | SText string | SMessage message | STime timestamp

definition default_row :: "timestamp \<Rightarrow> wafer" where
  \<comment> \<open>the column defaults of \<open>CREATE TABLE wafer_metadata\<close>\<close>
  "default_row now =
     \<lparr>wafer_id = [], wafer_name = [], folder_path = [], total_defects = 0,
      labeled_defects = 0, progress = 0, label_status = 0, parsed_status = 0,
      parse_error = None, last_operated = now, create_time = now\<rparr>"

fun set_column :: "string \<times> sqlval \<Rightarrow> wafer \<Rightarrow> wafer" where
  \<comment> \<open>one bound value of an \<open>INSERT\<close>, for the bindings the program makes\<close>
  "set_column (c, SText s) r =
     (if c = ''wafer_id'' then r\<lparr>wafer_id := s\<rparr>
      else if c = ''wafer_name'' then r\<lparr>wafer_name := s\<rparr>
      else if c = ''folder_path'' then r\<lparr>folder_path := s\<rparr>
      else r)"
| "set_column (c, SInt i) r =
     (if c = ''total_defects'' then r\<lparr>total_defects := i\<rparr>
      else if c = ''labeled_defects'' then r\<lparr>labeled_defects := i\<rparr>
      else if c = ''progress'' then r\<lparr>progress := of_int i\<rparr>
      else if c = ''label_status'' then r\<lparr>label_status := i\<rparr>
      else if c = ''parsed_status'' then r\<lparr>parsed_status := i\<rparr>
      else r)"
| "set_column (c, SReal q) r = (if c = ''progress'' then r\<lparr>progress := q\<rparr> else r)"
| "set_column (c, SMessage m) r = (if c = ''parse_error'' then r\<lparr>parse_error := Some m\<rparr> else r)"
| "set_column (c, STime t) r =
     (if c = ''last_operated'' then r\<lparr>last_operated := t\<rparr>
      else if c = ''create_time'' then r\<lparr>create_time := t\<rparr>
      else r)"
| "set_column (c, SNull) r = (if c = ''parse_error'' then r\<lparr>parse_error := None\<rparr> else r)"

definition sql_insert ::
  "string list \<Rightarrow> sqlval list \<Rightarrow> timestamp \<Rightarrow> wafer list \<Rightarrow> exn + wafer list" where
  \<comment> \<open>\<open>INSERT INTO wafer_metadata (cols) VALUES (?, ..., ?)\<close> with one placeholder per bound
      value. SQLite refuses a statement whose value count differs from its column count;
      \<open>wafer_id\<close> is the primary key and \<open>folder_path\<close> is \<open>UNIQUE\<close>.\<close>
  "sql_insert cols vals now idx =
     (if length vals \<noteq> length cols
      then Inl (OperationalError, Values_for_columns (length vals) (length cols))
      else let r = fold set_column (zip cols vals) (default_row now)
           in if wafer_id r \<in> set (map wafer_id idx)
              then Inl (IntegrityError, Unique_failed ''wafer_id'')
              else if folder_path r \<in> set (map folder_path idx)
              then Inl (IntegrityError, Unique_failed ''folder_path'')
              else Inr (idx @ [r]))"

definition select_wafer :: "string \<Rightarrow> wafer list \<Rightarrow> wafer option" where
  \<comment> \<open>\<open>SELECT ... FROM wafer_metadata WHERE wafer_id = ?\<close> and \<open>fetchone()\<close>\<close>
  "select_wafer wid idx = find (\<lambda>r. wafer_id r = wid) idx"

definition update_wafer :: "string \<Rightarrow> (wafer \<Rightarrow> wafer) \<Rightarrow> wafer list \<Rightarrow> wafer list" where
  \<comment> \<open>\<open>UPDATE wafer_metadata SET ... WHERE wafer_id = ?\<close>\<close>
  "update_wafer wid f idx = map (\<lambda>r. if wafer_id r = wid then f r else r) idx"

definition mark_error :: "string \<Rightarrow> message \<Rightarrow> timestamp \<Rightarrow> wafer list \<Rightarrow> wafer list" where
  \<comment> \<open>\<open>SET parsed_status = 2, parse_error = ?, last_operated = ?\<close>\<close>
  "mark_error wid msg now idx =
     update_wafer wid (\<lambda>r. r\<lparr>parsed_status := 2, parse_error := Some msg, last_operated := now\<rparr>) idx"

subsection \<open>\<open>_sync_progress\<close> and \<open>sync_wafer_progress\<close>\<close>

definition sql_ne :: "'a option \<Rightarrow> 'a option \<Rightarrow> bool option" where
  \<comment> \<open>SQL \<open>a != b\<close>: \<open>NULL\<close> when an operand is \<open>NULL\<close>\<close>
  "sql_ne a b = (case a of None \<Rightarrow> None | Some x \<Rightarrow> (case b of None \<Rightarrow> None | Some y \<Rightarrow> Some (x \<noteq> y)))"

definition sql_ge :: "int option \<Rightarrow> int option \<Rightarrow> bool option" where
  "sql_ge a b = (case a of None \<Rightarrow> None | Some x \<Rightarrow> (case b of None \<Rightarrow> None | Some y \<Rightarrow> Some (y \<le> x)))"

definition sql_and :: "bool option \<Rightarrow> bool option \<Rightarrow> bool option" where
  "sql_and a b =
     (if a = Some False \<or> b = Some False then Some False
      else if a = Some True \<and> b = Some True then Some True else None)"

definition sql_or :: "bool option \<Rightarrow> bool option \<Rightarrow> bool option" where
  "sql_or a b =
     (if a = Some True \<or> b = Some True then Some True
      else if a = Some False \<and> b = Some False then Some False else None)"

definition sql_where :: "('r \<Rightarrow> bool option) \<Rightarrow> 'r list \<Rightarrow> 'r list" where
  \<comment> \<open>\<open>WHERE\<close> keeps the rows on which the condition is true, not those where it is \<open>NULL\<close>\<close>
  "sql_where c rs = filter (\<lambda>r. c r = Some True) rs"

definition type_differs :: "defect \<Rightarrow> bool option" where
  \<comment> \<open>\<open>ai_adc_type != adc_type\<close>\<close>
  "type_differs d = sql_ne (Some (ai_adc_type d)) (adc_type d)"

definition count_labeled :: "defect_info \<Rightarrow> int" where
  \<comment> \<open>the three \<open>SELECT COUNT(*)\<close> queries, chosen by the columns the table has\<close>
  "count_labeled t =
     (if ''label_count'' \<in> set (columns t)
      then int (length (sql_where (\<lambda>d. sql_ge (label_count d) (Some 1)) (rows t)))
      else if ''severity'' \<in> set (columns t)
      then int (length (sql_where
             (\<lambda>d. sql_or (type_differs d)
                      (sql_and (Some (severity d \<noteq> None)) (sql_ne (severity d) (Some []))))
             (rows t)))
      else int (length (sql_where type_differs (rows t))))"

definition compute_progress :: "int \<Rightarrow> int \<Rightarrow> exn + double" where
  \<comment> \<open>\<open>progress = (labeled_defects / total_defects * 100) if total_defects > 0 else 0\<close>, then
      \<open>round(progress, 2)\<close>\<close>
  "compute_progress labeled total_n =
     (if 0 < total_n
      then (case int_truediv labeled total_n of
              Inl e \<Rightarrow> Inl e
            | Inr q \<Rightarrow> Inr (py_round2 (float_mul_int q 100)))
      else Inr (0, 0))"

definition derive_label_status :: "double \<Rightarrow> int \<Rightarrow> int" where
  \<comment> \<open>\<open>2 if progress == 100 else 1 if labeled_defects > 0 else 0\<close>\<close>
  "derive_label_status pr labeled =
     (if dvalue pr = 100 then 2 else if 0 < labeled then 1 else 0)"

definition sync_counts ::
  "timestamp \<Rightarrow> string \<Rightarrow> string \<Rightarrow> int \<Rightarrow> defect_info \<Rightarrow> world \<Rightarrow> world" where
  \<comment> \<open>the second \<open>try\<close> block of \<open>_sync_progress\<close>, from \<open>SELECT COUNT(*)\<close> on; \<open>t\<close> is
      the table the connection has opened. The retry rebuilds the file at the path, and
      the queries after it still go through that connection, to the file it opened.\<close>
  "sync_counts now wid p defect_count t w =
     (let retry = (length (rows t) = 0 \<and> 0 < defect_count);
          files = (if retry then create_inner_database p defect_count (fs w) else fs w);
          total_n = int (length (rows t));
          labeled = count_labeled t
      in case compute_progress labeled total_n of
           Inl e \<Rightarrow> \<lparr>index = mark_error wid (Sync_failed (str_exn e)) now (index w), fs = files\<rparr>
         | Inr pr \<Rightarrow>
             \<lparr>index = update_wafer wid
                (\<lambda>r. r\<lparr>total_defects := total_n, labeled_defects := labeled,
                        progress := dvalue pr,
                        label_status := derive_label_status pr labeled,
                        parsed_status := 1, parse_error := None, last_operated := now\<rparr>)
                (index w),
              fs = files\<rparr>)"

definition sync_progress :: "timestamp \<Rightarrow> string \<Rightarrow> string \<Rightarrow> world \<Rightarrow> world" where
  "sync_progress now wid p w =
     (case raw_data_of (fs w) p of
        None \<Rightarrow> w\<lparr>index := mark_error wid Raw_data_missing now (index w)\<rparr>
      | Some raw \<Rightarrow>
          (let files1 = remove_database p (fs w);
               lines = filtered_lines raw
           in if length lines < 1
              then \<lparr>index = mark_error wid Raw_data_empty now (index w), fs = files1\<rparr>
              else
                (let defect_count = (if int (length lines) - 1 < 0 then 0 else int (length lines) - 1);
                     files2 = create_inner_database p defect_count files1
                 in case database_of files2 p of
                      None \<Rightarrow>
                        \<lparr>index = mark_error wid Inner_db_create_failed now (index w), fs = files2\<rparr>
                    | Some None \<Rightarrow>
                        \<lparr>index = mark_error wid Table_incomplete now (index w), fs = files2\<rparr>
                    | Some (Some t) \<Rightarrow>
                        sync_counts now wid p defect_count t \<lparr>index = index w, fs = files2\<rparr>)))"

definition sync_wafer_progress :: "timestamp \<Rightarrow> string \<Rightarrow> world \<Rightarrow> bool \<times> world" where
  "sync_wafer_progress now wid w =
     (case select_wafer wid (index w) of
        None \<Rightarrow> (False, w)
      | Some r \<Rightarrow> (True, sync_progress now wid (folder_path r) w))"

subsection \<open>\<open>reset_wafer_status\<close>\<close>

definition reset_wafer_status :: "timestamp \<Rightarrow> string \<Rightarrow> world \<Rightarrow> bool \<times> world" where
  "reset_wafer_status now wid w =
     (case select_wafer wid (index w) of
        None \<Rightarrow> (False, w)
      | Some r \<Rightarrow>
          (True,
           \<lparr>index = update_wafer wid
              (\<lambda>r. r\<lparr>parsed_status := 0, parse_error := None, last_operated := now\<rparr>) (index w),
            fs = remove_database (folder_path r) (fs w)\<rparr>))"

subsection \<open>\<open>_parse_wafer_folder\<close> and \<open>load_wafer_folders\<close>\<close>

definition parse_wafer_folder ::
  "string \<Rightarrow> (string \<Rightarrow> folder option) \<Rightarrow> exn + int \<times> (string \<Rightarrow> folder option)" where
  \<comment> \<open>the count it returns is \<open>len(f.readlines()) - 1\<close>, taken before any filtering\<close>
  "parse_wafer_folder p files =
     (case files p of
        None \<Rightarrow> Inl (Exception, Raw_data_missing)
      | Some f \<Rightarrow>
          (case raw_data f of
             None \<Rightarrow> Inl (Exception, Raw_data_missing)
           | Some lines \<Rightarrow>
               if \<not> bright_field f \<or> \<not> dark_field f then Inl (Exception, Images_missing)
               else (let defect_count = int (length lines) - 1
                     in Inr (defect_count, create_inner_database p defect_count files))))"

record load_counts =
  total_processed :: nat
  success :: nat
  failed :: nat

definition insert_parsed ::
  "string \<Rightarrow> string \<Rightarrow> string \<Rightarrow> int \<Rightarrow> timestamp \<Rightarrow> wafer list \<Rightarrow> exn + wafer list" where
  \<comment> \<open>the statement of both parse branches: eight columns are named, nine values are bound\<close>
  "insert_parsed wid name p total_n now idx =
     sql_insert
       [''wafer_id'', ''wafer_name'', ''folder_path'', ''total_defects'',
        ''progress'', ''label_status'', ''parsed_status'', ''last_operated'']
       [SText wid, SText name, SText p, SInt total_n, SInt 0, SReal 0, SInt 0, SInt 1, STime now]
       now idx"

definition insert_failed ::
  "string \<Rightarrow> string \<Rightarrow> string \<Rightarrow> message \<Rightarrow> timestamp \<Rightarrow> wafer list \<Rightarrow> exn + wafer list" where
  \<comment> \<open>the statement of the \<open>except\<close> branch for a folder without a record\<close>
  "insert_failed wid name p msg now idx =
     sql_insert
       [''wafer_id'', ''wafer_name'', ''folder_path'', ''parsed_status'', ''parse_error'',
        ''last_operated'']
       [SText wid, SText name, SText p, SInt 2, SMessage msg, STime now]
       now idx"

definition parse_and_insert :: "timestamp \<Rightarrow> string \<Rightarrow> string \<Rightarrow> world \<Rightarrow> world \<times> (exn + unit)" where
  \<comment> \<open>\<open>total_defects = self._parse_wafer_folder(folder_path)\<close>, then the \<open>INSERT\<close>; the files
      written before an exception stay written\<close>
  "parse_and_insert now wid p w =
     (case parse_wafer_folder p (fs w) of
        Inl e \<Rightarrow> (w, Inl e)
      | Inr (total_n, files) \<Rightarrow>
          (case insert_parsed wid (basename p) p total_n now (index w) of
             Inl e \<Rightarrow> (\<lparr>index = index w, fs = files\<rparr>, Inl e)
           | Inr idx \<Rightarrow> (\<lparr>index = idx, fs = files\<rparr>, Inr ())))"

definition load_folder ::
  "(string \<Rightarrow> string) \<Rightarrow> timestamp \<Rightarrow> string \<Rightarrow> world \<times> load_counts \<Rightarrow> exn + world \<times> load_counts" where
  \<comment> \<open>one pass of the loop over \<open>wafer_folders\<close>; \<open>Inl\<close> is an exception that leaves the
      \<open>except\<close> branch. \<open>sha256_hex\<close> stands for \<open>_calculate_wafer_id\<close>.\<close>
  "load_folder sha256_hex now p wc =
     (let w = fst wc; c = snd wc;
          wid = sha256_hex p;
          existing_record = select_wafer wid (index w);
          has_inner_db = (database_of (fs w) p \<noteq> None);
          tried =
            (if existing_record = None \<and> \<not> has_inner_db then parse_and_insert now wid p w
             else if existing_record \<noteq> None \<or> has_inner_db then
               (if existing_record = None then parse_and_insert now wid p w
                else (sync_progress now wid p w, Inr ()))
             else (w, Inr ()))
      in case snd tried of
           Inr u \<Rightarrow>
             Inr (fst tried, c\<lparr>total_processed := total_processed c + 1, success := success c + 1\<rparr>)
         | Inl e \<Rightarrow>
             (if existing_record \<noteq> None
              then Inr ((fst tried)\<lparr>index := mark_error wid (str_exn e) now (index (fst tried))\<rparr>,
                        c\<lparr>total_processed := total_processed c + 1, failed := failed c + 1\<rparr>)
              else (case insert_failed wid (basename p) p (str_exn e) now (index (fst tried)) of
                      Inl e' \<Rightarrow> Inl e'
                    | Inr idx \<Rightarrow>
                        Inr ((fst tried)\<lparr>index := idx\<rparr>,
                             c\<lparr>total_processed := total_processed c + 1, failed := failed c + 1\<rparr>))))"

fun load_loop ::
  "(string \<Rightarrow> string) \<Rightarrow> timestamp \<Rightarrow> string list \<Rightarrow> world \<times> load_counts \<Rightarrow> exn + world \<times> load_counts" where
  "load_loop sha256_hex now [] wc = Inr wc"
| "load_loop sha256_hex now (p # ps) wc =
     (case load_folder sha256_hex now p wc of
        Inl e \<Rightarrow> Inl e
      | Inr wc' \<Rightarrow> load_loop sha256_hex now ps wc')"

definition load_wafer_folders ::
  "(string \<Rightarrow> string) \<Rightarrow> timestamp \<Rightarrow> string list \<Rightarrow> world \<Rightarrow> exn + world \<times> load_counts" where
  \<comment> \<open>\<open>wafer_folders\<close> is the list the directory walk produced: the folders that hold a
      \<open>raw_data.txt\<close>. \<open>Inl\<close> is an exception that leaves the method before the commit:
      the index keeps its old rows, and the files written so far stay (the result does
      not carry them).\<close>
  "load_wafer_folders sha256_hex now wafer_folders w =
     load_loop sha256_hex now wafer_folders
       (w, \<lparr>total_processed = 0, success = 0, failed = 0\<rparr>)"

subsection \<open>\<open>export_wafer_kfl\<close> and \<open>batch_export_kfl\<close>\<close>

record export_file =
  file_name :: string
  file_lines :: "string list"

definition str_opt_int :: "int option \<Rightarrow> string" where
  \<comment> \<open>how an f-string prints a nullable INTEGER\<close>
  "str_opt_int v = (case v of None \<Rightarrow> ''None'' | Some i \<Rightarrow> str_int i)"

definition kfl_line :: "defect \<Rightarrow> string" where
  \<comment> \<open>\<open>f"{defect[0]},{defect[1]},{defect[2]},{defect[3]},{defect[4]}"\<close>: the first five
      columns of the row\<close>
  "kfl_line d =
     defect_id d @ '','' @ str_int (center_x d) @ '','' @ str_int (center_y d) @ '',''
       @ str_int (ai_adc_type d) @ '','' @ str_opt_int (adc_type d)"

definition export_rows :: "bool \<Rightarrow> int \<Rightarrow> defect_info \<Rightarrow> defect list" where
  \<comment> \<open>\<open>SELECT * FROM defect_info\<close>, or the same \<open>WHERE ai_adc_type != adc_type\<close>\<close>
  "export_rows export_all status t =
     (if export_all \<or> status = 2 then rows t else sql_where type_differs (rows t))"

definition export_wafer_kfl :: "string \<Rightarrow> bool \<Rightarrow> world \<Rightarrow> exn + (message + export_file)" where
  \<comment> \<open>\<open>Inr (Inl msg)\<close> is the returned pair \<open>(None, msg)\<close>, \<open>Inr (Inr f)\<close> the pair
      \<open>(export_file, None)\<close>, \<open>Inl\<close> an exception that leaves the method. The file is
      written into a fresh temporary directory; its lines are given without the newline.\<close>
  "export_wafer_kfl wid export_all w =
     (case select_wafer wid (index w) of
        None \<Rightarrow> Inr (Inl Wafer_not_found)
      | Some r \<Rightarrow>
          (case database_of (fs w) (folder_path r) of
             None \<Rightarrow> Inr (Inl Inner_db_missing)
           | Some None \<Rightarrow> Inl (OperationalError, No_such_table ''defect_info'')
           | Some (Some t) \<Rightarrow>
               Inr (Inr \<lparr>file_name = wafer_name r @ ''_defects.kfl'',
                         file_lines =
                           (''KFL Export for '' @ wafer_name r)
                           # ''defect_id,center_x,center_y,ai_adc_type,adc_type''
                           # map kfl_line (export_rows export_all (label_status r) t)\<rparr>)))"

type_synonym temp_dir = "string \<Rightarrow> string list option"

fun batch_loop ::
  "world \<Rightarrow> string list \<Rightarrow> temp_dir \<times> string list \<Rightarrow> exn + temp_dir \<times> string list" where
  \<comment> \<open>the loop over \<open>wafer_ids\<close>: each export is copied into the one batch directory under
      its base name, and the name is appended to \<open>export_files\<close>\<close>
  "batch_loop w [] st = Inr st"
| "batch_loop w (wid # wids) st =
     (case export_wafer_kfl wid False w of
        Inl e \<Rightarrow> Inl e
      | Inr (Inl error) \<Rightarrow> batch_loop w wids st
      | Inr (Inr f) \<Rightarrow>
          batch_loop w wids ((fst st)(file_name f \<mapsto> file_lines f), snd st @ [file_name f]))"

definition zip_entry :: "temp_dir \<Rightarrow> string \<Rightarrow> string \<times> string list" where
  \<comment> \<open>\<open>zf.write(file, os.path.basename(file))\<close>: the file is read when the archive is written\<close>
  "zip_entry d n = (n, case d n of None \<Rightarrow> [] | Some c \<Rightarrow> c)"

definition batch_export_kfl ::
  "string list \<Rightarrow> world \<Rightarrow> exn + (message + (string \<times> string list) list)" where
  \<comment> \<open>the archive is the list of its entries, name and content, in the order written\<close>
  "batch_export_kfl wafer_ids w =
     (case batch_loop w wafer_ids (Map.empty, []) of
        Inl e \<Rightarrow> Inl e
      | Inr st \<Rightarrow>
          if snd st \<noteq> [] then Inr (Inr (map (zip_entry (fst st)) (snd st)))
          else Inr (Inl No_exportable_wafer))"

subsection \<open>\<open>WebInterface.save_label\<close>\<close>

datatype response = Success message | Failure message

definition type_map :: "string \<Rightarrow> int" where
  \<comment> \<open>\<open>type_map.get(adc_type, 0)\<close>\<close>
  "type_map name =
     (if name = ''Particle'' then 1
      else if name = ''Scratch'' then 2
      else if name = ''Stain'' then 3
      else if name = ''Pinhole'' then 4
      else if name = ''Other'' then 5
      else 0)"

definition select_defect_ids :: "defect_info \<Rightarrow> string list" where
  \<comment> \<open>\<open>SELECT defect_id FROM defect_info\<close>. SQLite answers this query from the primary-key
      index, in ascending byte order of \<open>defect_id\<close>; SQL itself promises no order.\<close>
  "select_defect_ids t = sort (map defect_id (rows t))"

definition add_column :: "string \<Rightarrow> defect_info \<Rightarrow> defect_info" where
  \<comment> \<open>\<open>if name not in columns: ALTER TABLE defect_info ADD COLUMN name ...\<close>; a column added
      with \<open>DEFAULT 0\<close> reads 0 in the rows already there\<close>
  "add_column name t =
     (if name \<in> set (columns t) then t
      else if name = ''label_count''
      then \<lparr>columns = columns t @ [name], rows = map (\<lambda>d. d\<lparr>label_count := Some 0\<rparr>) (rows t)\<rparr>
      else t\<lparr>columns := columns t @ [name]\<rparr>)"

definition add_label_columns :: "defect_info \<Rightarrow> defect_info" where
  "add_label_columns t =
     add_column ''label_count'' (add_column ''label_time'' (add_column ''comment''
       (add_column ''severity'' t)))"

definition update_label ::
  "timestamp \<Rightarrow> string \<Rightarrow> int \<Rightarrow> string \<Rightarrow> string \<Rightarrow> defect_info \<Rightarrow> defect_info" where
  \<comment> \<open>\<open>UPDATE defect_info SET adc_type = ?, severity = ?, comment = ?, label_time = ?,
      label_count = label_count + 1 WHERE defect_id = ?\<close>\<close>
  "update_label now target adc_type_num sev com t =
     t\<lparr>rows := map (\<lambda>d. if defect_id d = target
                          then d\<lparr>adc_type := Some adc_type_num, severity := Some sev,
                                 comment := Some com, label_time := Some now,
                                 label_count := map_option (\<lambda>c. c + 1) (label_count d)\<rparr>
                          else d) (rows t)\<rparr>"

definition write_label ::
  "timestamp \<Rightarrow> int \<Rightarrow> int \<Rightarrow> string \<Rightarrow> string \<Rightarrow> defect_info \<Rightarrow> defect_info" where
  \<comment> \<open>the inner \<open>try\<close> block: nothing is written when the index is out of range\<close>
  "write_label now defect_index adc_type_num sev com t =
     (let defect_ids = select_defect_ids t
      in if 0 \<le> defect_index \<and> defect_index < int (length defect_ids)
         then update_label now (defect_ids ! nat defect_index) adc_type_num sev com
                (add_label_columns t)
         else t)"

definition save_label ::
  "timestamp \<Rightarrow> string \<Rightarrow> int \<Rightarrow> string \<Rightarrow> string option \<Rightarrow> string option \<Rightarrow> world
     \<Rightarrow> world \<times> response" where
  \<comment> \<open>\<open>defect_index\<close> is an int, as a JSON request delivers it. \<open>sqlite3.connect\<close> creates
      \<open>database.db\<close> when the folder has none.\<close>
  "save_label now wid defect_index adc_type_name severity_arg comment_arg w =
     (let sev = (case severity_arg of None \<Rightarrow> [] | Some s \<Rightarrow> s);
          com = (case comment_arg of None \<Rightarrow> [] | Some s \<Rightarrow> s)
      in case select_wafer wid (index w) of
           None \<Rightarrow> (w, Failure Wafer_not_found)
         | Some r \<Rightarrow>
             (case fs w (folder_path r) of
                None \<Rightarrow> (w, Failure Unable_to_open)
              | Some f \<Rightarrow>
                  (case database f of
                     None \<Rightarrow>
                       (w\<lparr>fs := (fs w)(folder_path r \<mapsto> f\<lparr>database := Some None\<rparr>)\<rparr>,
                        Failure (No_such_table ''defect_info''))
                   | Some None \<Rightarrow> (w, Failure (No_such_table ''defect_info''))
                   | Some (Some t) \<Rightarrow>
                       (let t' = write_label now defect_index (type_map adc_type_name) sev com t;
                            w' = w\<lparr>fs := (fs w)(folder_path r \<mapsto> f\<lparr>database := Some (Some t')\<rparr>)\<rparr>
                        in (snd (sync_wafer_progress now wid w'), Success Label_saved)))))"

subsection \<open>The progress formula as the specification writes it\<close>

definition spec_progress :: "int \<Rightarrow> int \<Rightarrow> double" where
  \<comment> \<open>\<open>round(labeled / total * 100, 2)\<close> for a positive total, evaluated as Python does\<close>
  "spec_progress labeled total_n = py_round2 (float_mul_int (nearest_double labeled total_n) 100)"

subsection \<open>Notions used in the statements\<close>

definition parsed_rows :: "string list \<Rightarrow> defect list" where
  \<comment> \<open>the rows of a report that parse: \<open>insert_data\<close> of \<open>_create_inner_database\<close>\<close>
  "parsed_rows raw = insert_data_of (tl (filtered_lines raw))"

definition stored_rows :: "string list \<Rightarrow> defect list" where
  \<comment> \<open>the rows the \<open>INSERT OR REPLACE\<close> statements leave in the table\<close>
  "stored_rows raw = foldl insert_or_replace [] (insert_data_of (tl (filtered_lines raw)))"

definition built :: "string list \<Rightarrow> defect_info option option" where
  \<comment> \<open>the database file a build leaves for a report\<close>
  "built raw =
     (if filtered_lines raw = [] \<or> \<not> list_all bindable (parsed_rows raw) \<or> parsed_rows raw = []
      then None
      else Some (Some \<lparr>columns = base_columns, rows = stored_rows raw\<rparr>))"

definition differs :: "defect \<Rightarrow> bool" where
  \<comment> \<open>the human classification is there and is not the machine's\<close>
  "differs d = (case adc_type d of None \<Rightarrow> False | Some a \<Rightarrow> a \<noteq> ai_adc_type d)"


definition summary :: "wafer \<Rightarrow> int \<times> int \<times> rat \<times> int" where
  \<comment> \<open>the four derived fields of an index row\<close>
  "summary r = (total_defects r, labeled_defects r, progress r, label_status r)"

text \<open>
  One reconciliation in closed form: what it decides from the report (\<open>sync_outcome\<close>),
  what it writes into the index row (\<open>sync_row\<close>) and what it leaves in the folder
  (\<open>sync_files\<close>). Lemma \<open>sync_progress_normal\<close> proves that \<open>sync_progress\<close> is their
  composition.
\<close>

definition sync_outcome :: "string list option \<Rightarrow> message + defect_info" where
  "sync_outcome raw_opt =
     (case raw_opt of
        None \<Rightarrow> Inl Raw_data_missing
      | Some raw \<Rightarrow>
          if filtered_lines raw = [] then Inl Raw_data_empty
          else (case built raw of
                  None \<Rightarrow> Inl Inner_db_create_failed
                | Some None \<Rightarrow> Inl Table_incomplete
                | Some (Some t) \<Rightarrow> Inr t))"

definition sync_row :: "timestamp \<Rightarrow> message + defect_info \<Rightarrow> wafer \<Rightarrow> wafer" where
  "sync_row now outcome r =
     (case outcome of
        Inl msg \<Rightarrow> r\<lparr>parsed_status := 2, parse_error := Some msg, last_operated := now\<rparr>
      | Inr t \<Rightarrow>
          r\<lparr>total_defects := int (length (rows t)), labeled_defects := count_labeled t,
            progress :=
              (case compute_progress (count_labeled t) (int (length (rows t))) of
                 Inr pr \<Rightarrow> dvalue pr | Inl e \<Rightarrow> 0),
            label_status :=
              (case compute_progress (count_labeled t) (int (length (rows t))) of
                 Inr pr \<Rightarrow> derive_label_status pr (count_labeled t) | Inl e \<Rightarrow> 0),
            parsed_status := 1, parse_error := None, last_operated := now\<rparr>)"

definition sync_files :: "string \<Rightarrow> (string \<Rightarrow> folder option) \<Rightarrow> (string \<Rightarrow> folder option)" where
  "sync_files p files =
     (case files p of
        None \<Rightarrow> files
      | Some f \<Rightarrow>
         (case raw_data f of
            None \<Rightarrow> files
          | Some raw \<Rightarrow>
              files(p \<mapsto> f\<lparr>database := (if filtered_lines raw = [] then None else built raw)\<rparr>)))"

subsection \<open>Example inputs\<close>

definition text_lines :: "string list \<Rightarrow> string list" where
  \<comment> \<open>the lines of a text file, each with its newline\<close>
  "text_lines ls = map (\<lambda>l. l @ [CHR 0x0A]) ls"

definition path_digest :: "string \<Rightarrow> string" where
  \<comment> \<open>a stand-in for the SHA-256 hex digest of the path\<close>
  "path_digest p = ''sha256:'' @ p"

definition new_defect :: "string \<Rightarrow> int \<Rightarrow> int \<Rightarrow> int \<Rightarrow> defect" where
  \<comment> \<open>a row as the build inserts it\<close>
  "new_defect i x y a =
     \<lparr>defect_id = i, center_x = x, center_y = y, ai_adc_type = a, adc_type = None,
      severity = None, comment = None, label_time = None, label_count = None\<rparr>"

definition wafer_folder :: "string list \<Rightarrow> defect_info option option \<Rightarrow> folder" where
  \<comment> \<open>a folder with a report and both images\<close>
  "wafer_folder report db =
     \<lparr>raw_data = Some report, bright_field = True, dark_field = True, database = db\<rparr>"

definition failed_row :: "string \<Rightarrow> string \<Rightarrow> message \<Rightarrow> timestamp \<Rightarrow> wafer" where
  \<comment> \<open>the row the \<open>except\<close> branch of \<open>load_wafer_folders\<close> inserts\<close>
  "failed_row p name msg now =
     \<lparr>wafer_id = path_digest p, wafer_name = name, folder_path = p, total_defects = 0,
      labeled_defects = 0, progress = 0, label_status = 0, parsed_status = 2,
      parse_error = Some msg, last_operated = now, create_time = now\<rparr>"

text \<open>A unit with five well-formed data lines.\<close>

definition report5 :: "string list" where
  "report5 = text_lines [''defect_id,center_x,center_y,ai_adc_type'',
      ''D1,10,20,3'', ''D2,11,21,1'', ''D3,12,22,5'', ''D4,13,23,2'', ''D5,14,24,4'']"

definition table5 :: defect_info where
  "table5 = \<lparr>columns = base_columns,
     rows = [new_defect ''D1'' 10 20 3, new_defect ''D2'' 11 21 1, new_defect ''D3'' 12 22 5,
             new_defect ''D4'' 13 23 2, new_defect ''D5'' 14 24 4]\<rparr>"

definition world5 :: world where
  \<comment> \<open>before discovery\<close>
  "world5 = \<lparr>index = [], fs = [''/data/W5'' \<mapsto> wafer_folder report5 None]\<rparr>"

definition world5_loaded :: world where
  \<comment> \<open>after discovery at time 1\<close>
  "world5_loaded =
     \<lparr>index = [failed_row ''/data/W5'' ''W5'' (Values_for_columns 9 8) 1],
      fs = [''/data/W5'' \<mapsto> wafer_folder report5 (Some (Some table5))]\<rparr>"

definition table5_labeled :: defect_info where
  \<comment> \<open>\<open>table5\<close> after row 0 is labeled \<open>Scratch\<close> at time 2\<close>
  "table5_labeled =
     \<lparr>columns = base_columns @ [''severity'', ''comment'', ''label_time'', ''label_count''],
      rows = [(new_defect ''D1'' 10 20 3)\<lparr>adc_type := Some 2, severity := Some [],
                comment := Some [], label_time := Some 2, label_count := Some 1\<rparr>,
              (new_defect ''D2'' 11 21 1)\<lparr>label_count := Some 0\<rparr>,
              (new_defect ''D3'' 12 22 5)\<lparr>label_count := Some 0\<rparr>,
              (new_defect ''D4'' 13 23 2)\<lparr>label_count := Some 0\<rparr>,
              (new_defect ''D5'' 14 24 4)\<lparr>label_count := Some 0\<rparr>]\<rparr>"

definition row5_synced :: "timestamp \<Rightarrow> wafer" where
  \<comment> \<open>the index row of the unit after a reconciliation\<close>
  "row5_synced now =
     \<lparr>wafer_id = ''sha256:/data/W5'', wafer_name = ''W5'', folder_path = ''/data/W5'',
      total_defects = 5, labeled_defects = 0, progress = 0, label_status = 0, parsed_status = 1,
      parse_error = None, last_operated = now, create_time = 1\<rparr>"

text \<open>A unit whose report has three well-formed lines and one malformed line.\<close>

definition report4 :: "string list" where
  "report4 = text_lines [''defect_id,center_x,center_y,ai_adc_type'',
      ''D1,10,20,3'', ''D2,11,21,1'', ''D3,12,22,5'', ''X,1,2'']"

definition table3 :: defect_info where
  "table3 = \<lparr>columns = base_columns,
     rows = [new_defect ''D1'' 10 20 3, new_defect ''D2'' 11 21 1, new_defect ''D3'' 12 22 5]\<rparr>"

definition world4 :: world where
  "world4 = \<lparr>index = [], fs = [''/data/W4'' \<mapsto> wafer_folder report4 None]\<rparr>"

text \<open>A report that names one defect twice.\<close>

definition report_dup :: "string list" where
  "report_dup =
     text_lines [''defect_id,center_x,center_y,ai_adc_type'', ''D1,10,20,3'', ''D1,30,40,1'']"

text \<open>Two units; the folder of the second has no dark-field image.\<close>

definition folder_b :: "defect_info option option \<Rightarrow> folder" where
  "folder_b db = \<lparr>raw_data = Some report5, bright_field = True, dark_field = False, database = db\<rparr>"

definition world_ab :: world where
  "world_ab =
     \<lparr>index = [],
      fs = [''/data/W5'' \<mapsto> wafer_folder report5 None, ''/data/WB'' \<mapsto> folder_b None]\<rparr>"

definition world_ab_loaded :: "defect_info option option \<Rightarrow> world" where
  \<comment> \<open>after discovery at time 1; the argument is the second unit's database file\<close>
  "world_ab_loaded db =
     \<lparr>index = [failed_row ''/data/W5'' ''W5'' (Values_for_columns 9 8) 1,
               failed_row ''/data/WB'' ''WB'' Images_missing 1],
      fs = [''/data/W5'' \<mapsto> wafer_folder report5 (Some (Some table5)),
            ''/data/WB'' \<mapsto> folder_b db]\<rparr>"

section \<open>Properties\<close>

subsection \<open>Progress and label status\<close>

lemmas float_eval = bit_length.simps dvalue_def shift_ratio_def div_half_even_def binade_def
  nearest_double_def float_mul_int_def py_round2_def Let_def nearest_scaled_def round_scaled_def

lemma nearest_double_zero: "nearest_double 0 d = (0, 0)"
  by (simp add: nearest_double_def)

lemma dvalue_zero: "dvalue (0, 0) = 0"
  by (simp add: dvalue_def)

lemma compute_progress_none_labeled: "compute_progress 0 t = Inr (0, 0)"
  by (simp add: compute_progress_def int_truediv_def nearest_double_zero float_mul_int_def
      nearest_scaled_def py_round2_def round_scaled_def)






lemma compute_progress_spec:
  "compute_progress labeled total_n =
     Inr (if 0 < total_n then spec_progress labeled total_n else (0, 0))"
  by (simp add: compute_progress_def int_truediv_def spec_progress_def)



lemma pow2_int: "0 \<le> k \<Longrightarrow> (of_int (2 ^ nat k) :: rat) = power_int 2 k"
  by (simp add: power_int_def)



lemma shift_ratio_fst_pos: "0 < n \<Longrightarrow> 0 < fst (shift_ratio n d s)"
  by (simp add: shift_ratio_def)























subsection \<open>Building the detail database\<close>

lemma ior_ids:
  "set (map defect_id (foldl insert_or_replace acc ds))
     = set (map defect_id acc) \<union> set (map defect_id ds)"
  by (induction ds arbitrary: acc) (auto simp: insert_or_replace_def)

lemma ior_distinct:
  "distinct (map defect_id acc) \<Longrightarrow> distinct (map defect_id (foldl insert_or_replace acc ds))"
proof (induction ds arbitrary: acc)
  case Nil
  then show ?case by simp
next
  case (Cons d ds)
  have "distinct (map defect_id (insert_or_replace acc d))"
    using Cons.prems by (auto simp: insert_or_replace_def distinct_map_filter)
  then show ?case using Cons.IH by simp
qed

lemma ior_subset: "set (foldl insert_or_replace acc ds) \<subseteq> set acc \<union> set ds"
proof (induction ds arbitrary: acc)
  case Nil
  then show ?case by simp
next
  case (Cons d ds)
  have "set (insert_or_replace acc d) \<subseteq> set acc \<union> {d}"
    by (auto simp: insert_or_replace_def)
  then show ?case using Cons.IH [of "insert_or_replace acc d"] by auto
qed

lemma ior_distinct_input:
  "distinct (map defect_id (acc @ ds)) \<Longrightarrow> foldl insert_or_replace acc ds = acc @ ds"
proof (induction ds arbitrary: acc)
  case Nil
  then show ?case by simp
next
  case (Cons d ds)
  have "defect_id x \<noteq> defect_id d" if "x \<in> set acc" for x
    using Cons.prems that by (auto simp: image_iff)
  then have "insert_or_replace acc d = acc @ [d]"
    by (simp add: insert_or_replace_def filter_id_conv)
  moreover have "distinct (map defect_id ((acc @ [d]) @ ds))"
    using Cons.prems by simp
  ultimately show ?case using Cons.IH [of "acc @ [d]"] by simp
qed

lemma ior_last_wins:
  "r \<in> set (foldl insert_or_replace acc ds) \<Longrightarrow> defect_id r \<in> set (map defect_id ds) \<Longrightarrow>
     map_of (rev (map (\<lambda>d. (defect_id d, d)) ds)) (defect_id r) = Some r"
proof (induction ds arbitrary: acc)
  case Nil
  then show ?case by simp
next
  case (Cons d ds)
  show ?case
  proof (cases "defect_id r \<in> set (map defect_id ds)")
    case True
    then have "map_of (rev (map (\<lambda>d. (defect_id d, d)) ds)) (defect_id r) = Some r"
      using Cons.IH [of "insert_or_replace acc d"] Cons.prems(1) by simp
    then show ?thesis by (simp add: map_add_Some_iff)
  next
    case False
    then have none: "map_of (rev (map (\<lambda>d. (defect_id d, d)) ds)) (defect_id r) = None"
      by (simp add: map_of_eq_None_iff image_image)
    have id: "defect_id r = defect_id d" using False Cons.prems(2) by auto
    have "r \<in> set (insert_or_replace acc d) \<union> set ds"
      using ior_subset [of "insert_or_replace acc d" ds] Cons.prems(1) by auto
    moreover have "r \<notin> set ds" using False by auto
    ultimately have "r = d" using id by (auto simp: insert_or_replace_def)
    then show ?thesis using none by (simp add: map_add_Some_iff)
  qed
qed

lemma ior_nonempty: "ds \<noteq> [] \<Longrightarrow> foldl insert_or_replace acc ds \<noteq> []"
  using ior_ids [of acc ds] by (cases ds) (auto simp del: set_map)

lemma stored_rows_nonempty: "parsed_rows raw \<noteq> [] \<Longrightarrow> stored_rows raw \<noteq> []"
  by (simp add: stored_rows_def parsed_rows_def ior_nonempty)

lemma create_in_folder_built:
  "create_in_folder f
     = f\<lparr>database := (case raw_data f of None \<Rightarrow> None | Some raw \<Rightarrow> built raw)\<rparr>"
  by (cases "raw_data f")
     (auto simp: create_in_folder_def import_raw_data_def executemany_insert_def Let_def
        built_def parsed_rows_def stored_rows_def ior_nonempty)

lemma built_rows: "built raw = Some (Some t) \<Longrightarrow> rows t \<noteq> [] \<and> columns t = base_columns"
  by (auto simp: built_def stored_rows_nonempty split: if_splits)

lemma built_no_empty_file: "built raw \<noteq> Some None"
  by (simp add: built_def)

lemma database_after_create:
  "database_of (create_inner_database p n files) p
     = (case raw_data_of files p of None \<Rightarrow> None | Some raw \<Rightarrow> built raw)"
  by (auto simp: database_of_def create_inner_database_def create_in_folder_built raw_data_of_def
      empty_folder_def split: option.splits)

text \<open>
  C6, as the code has it. When \<open>_create_inner_database\<close> returns, the database file is
  either absent or holds a \<open>defect_info\<close> table with at least one row. The file is absent
  exactly when the report is missing, has no line left after filtering, has a parsed value
  that SQLite cannot store as INTEGER (the insert raises and the transaction is rolled
  back), or has no data line that parses. A data line that does not parse is skipped and
  does not abort the build. The table holds one row per \<open>defect_id\<close> among the parsed rows,
  the last one parsed: all the parsed rows when their ids are distinct. No other folder is
  touched.
\<close>

theorem create_inner_database_outcome:
  "(database_of (create_inner_database p n files) p = None
      \<or> (\<exists>raw. raw_data_of files p = Some raw \<and> stored_rows raw \<noteq> []
            \<and> database_of (create_inner_database p n files) p
                = Some (Some \<lparr>columns = base_columns, rows = stored_rows raw\<rparr>)))
   \<and> (database_of (create_inner_database p n files) p = None \<longleftrightarrow>
        (case raw_data_of files p of
           None \<Rightarrow> True
         | Some raw \<Rightarrow> filtered_lines raw = [] \<or> \<not> list_all bindable (parsed_rows raw)
                        \<or> parsed_rows raw = []))
   \<and> (\<forall>q. q \<noteq> p \<longrightarrow> create_inner_database p n files q = files q)
   \<and> (\<forall>raw. distinct (map defect_id (stored_rows raw))
          \<and> set (stored_rows raw) \<subseteq> set (parsed_rows raw)
          \<and> set (map defect_id (stored_rows raw)) = set (map defect_id (parsed_rows raw))
          \<and> (distinct (map defect_id (parsed_rows raw)) \<longrightarrow> stored_rows raw = parsed_rows raw)
          \<and> (\<forall>r \<in> set (stored_rows raw).
                map_of (rev (map (\<lambda>d. (defect_id d, d)) (parsed_rows raw))) (defect_id r)
                  = Some r))"
proof -
  note db = database_after_create [of p n files]
  have c1: "database_of (create_inner_database p n files) p = None
      \<or> (\<exists>raw. raw_data_of files p = Some raw \<and> stored_rows raw \<noteq> []
            \<and> database_of (create_inner_database p n files) p
                = Some (Some \<lparr>columns = base_columns, rows = stored_rows raw\<rparr>))"
    unfolding db by (auto simp: built_def stored_rows_nonempty split: option.splits)
  have c2: "database_of (create_inner_database p n files) p = None \<longleftrightarrow>
        (case raw_data_of files p of
           None \<Rightarrow> True
         | Some raw \<Rightarrow> filtered_lines raw = [] \<or> \<not> list_all bindable (parsed_rows raw)
                        \<or> parsed_rows raw = [])"
    unfolding db by (auto simp: built_def split: option.splits)
  have c3: "\<forall>q. q \<noteq> p \<longrightarrow> create_inner_database p n files q = files q"
    by (auto simp: create_inner_database_def split: option.splits)
  have c4: "distinct (map defect_id (stored_rows raw))
          \<and> set (stored_rows raw) \<subseteq> set (parsed_rows raw)
          \<and> set (map defect_id (stored_rows raw)) = set (map defect_id (parsed_rows raw))
          \<and> (distinct (map defect_id (parsed_rows raw)) \<longrightarrow> stored_rows raw = parsed_rows raw)
          \<and> (\<forall>r \<in> set (stored_rows raw).
                map_of (rev (map (\<lambda>d. (defect_id d, d)) (parsed_rows raw))) (defect_id r)
                  = Some r)" for raw
  proof -
    have ids: "set (map defect_id (stored_rows raw)) = set (map defect_id (parsed_rows raw))"
      using ior_ids [of "[]" "parsed_rows raw"] by (simp add: stored_rows_def parsed_rows_def)
    have last: "map_of (rev (map (\<lambda>d. (defect_id d, d)) (parsed_rows raw))) (defect_id r) = Some r"
      if "r \<in> set (stored_rows raw)" for r
    proof -
      have "defect_id r \<in> set (map defect_id (parsed_rows raw))"
        using that ids by (metis image_eqI list.set_map)
      then show ?thesis
        using that ior_last_wins [of r "[]" "parsed_rows raw"]
        by (simp add: stored_rows_def parsed_rows_def)
    qed
    show ?thesis
      using ior_distinct [of "[]" "parsed_rows raw"] ior_subset [of "[]" "parsed_rows raw"]
        ior_distinct_input [of "[]" "parsed_rows raw"] ids last
      by (simp add: stored_rows_def parsed_rows_def)
  qed
  show ?thesis using c1 c2 c3 c4 by blast
qed

lemmas text_eval = strip_def isspace_def startswith_hash_def isdigit_def digit_value_def
  parse_unsigned_def py_int_def text_lines_def

lemma wafer_folder_sel:
  "raw_data (wafer_folder report db) = Some report"
  "bright_field (wafer_folder report db)"
  "dark_field (wafer_folder report db)"
  "database (wafer_folder report db) = db"
  "(wafer_folder report db)\<lparr>database := db'\<rparr> = wafer_folder report db'"
  by (simp_all add: wafer_folder_def)

lemma filtered5:
  "filtered_lines report5 = [''defect_id,center_x,center_y,ai_adc_type'',
      ''D1,10,20,3'', ''D2,11,21,1'', ''D3,12,22,5'', ''D4,13,23,2'', ''D5,14,24,4'']"
  by (simp add: filtered_lines_def report5_def text_eval)

lemma parsed5: "parsed_rows report5 = rows table5"
  by (simp add: parsed_rows_def filtered5 insert_data_of_def List.map_filter_simps
      parse_line_def text_eval table5_def new_defect_def)

lemma stored5: "stored_rows report5 = rows table5"
  unfolding stored_rows_def parsed_rows_def [symmetric] parsed5
  by (simp add: table5_def new_defect_def insert_or_replace_def)

lemma built5: "built report5 = Some (Some table5)"
  by (simp add: built_def filtered5 parsed5 stored5)
     (simp add: table5_def new_defect_def bindable_def sqlite_integer_def)

lemma length5: "length (rows table5) = 5"
  by (simp add: table5_def)

lemma filtered4:
  "filtered_lines report4 = [''defect_id,center_x,center_y,ai_adc_type'',
      ''D1,10,20,3'', ''D2,11,21,1'', ''D3,12,22,5'', ''X,1,2'']"
  by (simp add: filtered_lines_def report4_def text_eval)

lemma malformed_line: "parse_line ''X,1,2'' = None"
  by (simp add: parse_line_def)

lemma parsed4: "parsed_rows report4 = rows table3"
  by (simp add: parsed_rows_def filtered4 insert_data_of_def List.map_filter_simps
      parse_line_def text_eval table3_def new_defect_def)

lemma stored4: "stored_rows report4 = rows table3"
  unfolding stored_rows_def parsed_rows_def [symmetric] parsed4
  by (simp add: table3_def new_defect_def insert_or_replace_def)

lemma built4: "built report4 = Some (Some table3)"
  by (simp add: built_def filtered4 parsed4 stored4)
     (simp add: table3_def new_defect_def bindable_def sqlite_integer_def)

text \<open>The build of the five-line report: all five rows are stored.\<close>

theorem create_inner_database_outcome_witness:
  "database_of (create_inner_database ''/data/W5'' 5 (fs world5)) ''/data/W5''
     = Some (Some table5)
   \<and> stored_rows report5 = parsed_rows report5
   \<and> create_inner_database ''/data/W5'' 5 (fs world5) ''/data/W4'' = fs world5 ''/data/W4''"
  using create_inner_database_outcome [of "''/data/W5''" 5 "fs world5"]
  by (simp add: world5_def database_after_create raw_data_of_def wafer_folder_sel built5
      stored5 parsed5)

lemma filtered_dup:
  "filtered_lines report_dup
     = [''defect_id,center_x,center_y,ai_adc_type'', ''D1,10,20,3'', ''D1,30,40,1'']"
  by (simp add: filtered_lines_def report_dup_def text_eval)

lemma parsed_dup:
  "parsed_rows report_dup = [new_defect ''D1'' 10 20 3, new_defect ''D1'' 30 40 1]"
  by (simp add: parsed_rows_def filtered_dup insert_data_of_def List.map_filter_simps
      parse_line_def text_eval new_defect_def)

lemma stored_dup: "stored_rows report_dup = [new_defect ''D1'' 30 40 1]"
  unfolding stored_rows_def parsed_rows_def [symmetric] parsed_dup
  by (simp add: new_defect_def insert_or_replace_def)

text \<open>
  C6 as stated fails on "exactly the successfully parsed rows": a report that names defect
  \<open>D1\<close> on two well-formed lines has two parsed rows, and the table that is left holds one
  row, the second. It also fails if a line that does not parse counts as a row-level
  failure: the report with the malformed line \<open>X,1,2\<close> leaves a store with the three
  other rows.
\<close>

theorem create_inner_database_counterexample:
  "parsed_rows report_dup = [new_defect ''D1'' 10 20 3, new_defect ''D1'' 30 40 1]
   \<and> database_of
        (create_inner_database ''/data/WD'' 2 [''/data/WD'' \<mapsto> wafer_folder report_dup None])
        ''/data/WD''
       = Some (Some \<lparr>columns = base_columns, rows = [new_defect ''D1'' 30 40 1]\<rparr>)
   \<and> parse_line ''X,1,2'' = None
   \<and> database_of (create_inner_database ''/data/W4'' 4 (fs world4)) ''/data/W4''
       = Some (Some table3)"
proof -
  have "database_of
        (create_inner_database ''/data/WD'' 2 [''/data/WD'' \<mapsto> wafer_folder report_dup None])
        ''/data/WD''
       = Some (Some \<lparr>columns = base_columns, rows = [new_defect ''D1'' 30 40 1]\<rparr>)"
    by (simp add: database_after_create raw_data_of_def wafer_folder_sel built_def
        filtered_dup stored_dup parsed_dup)
       (simp add: new_defect_def bindable_def sqlite_integer_def)
  moreover have "database_of (create_inner_database ''/data/W4'' 4 (fs world4)) ''/data/W4''
       = Some (Some table3)"
    by (simp add: database_after_create raw_data_of_def world4_def wafer_folder_sel built4)
  ultimately show ?thesis
    using parsed_dup malformed_line by simp
qed

subsection \<open>Reconciliation\<close>

lemma rebuild_eq:
  "fs w p = Some f \<Longrightarrow> raw_data f = Some raw \<Longrightarrow>
   create_inner_database p n (remove_database p (fs w)) = (fs w)(p \<mapsto> f\<lparr>database := built raw\<rparr>)"
  by (simp add: create_inner_database_def remove_database_def create_in_folder_built)

lemma update_wafer_twice:
  "(\<And>r. wafer_id (g r) = wafer_id r) \<Longrightarrow>
   update_wafer wid f (update_wafer wid g idx) = update_wafer wid (\<lambda>r. f (g r)) idx"
  by (simp add: update_wafer_def)

lemma select_update_wafer:
  "(\<And>r. wafer_id (g r) = wafer_id r) \<Longrightarrow>
   select_wafer wid (update_wafer wid g idx) = map_option g (select_wafer wid idx)"
  by (induction idx) (auto simp: select_wafer_def update_wafer_def)

lemma sync_row_Inl:
  "sync_row now (Inl msg)
     = (\<lambda>r. r\<lparr>parsed_status := 2, parse_error := Some msg, last_operated := now\<rparr>)"
  by (rule ext) (simp add: sync_row_def)

lemma sync_row_Inr:
  "compute_progress (count_labeled t) (int (length (rows t))) = Inr pr \<Longrightarrow>
   sync_row now (Inr t) =
     (\<lambda>r. r\<lparr>total_defects := int (length (rows t)), labeled_defects := count_labeled t,
             progress := dvalue pr, label_status := derive_label_status pr (count_labeled t),
             parsed_status := 1, parse_error := None, last_operated := now\<rparr>)"
  by (rule ext) (simp add: sync_row_def)

lemma world_update_index: "w\<lparr>index := i\<rparr> = \<lparr>index = i, fs = fs w\<rparr>"
  by (cases w) simp

lemma sync_progress_normal:
  "sync_progress now wid p w =
     \<lparr>index = update_wafer wid (sync_row now (sync_outcome (raw_data_of (fs w) p))) (index w),
      fs = sync_files p (fs w)\<rparr>"
proof (cases "fs w p")
  case None
  then show ?thesis
    by (simp add: sync_progress_def raw_data_of_def sync_outcome_def sync_row_Inl
        world_update_index sync_files_def mark_error_def)
next
  case (Some f)
  note f = this
  show ?thesis
  proof (cases "raw_data f")
    case None
    then show ?thesis using f
      by (simp add: sync_progress_def raw_data_of_def sync_outcome_def sync_row_Inl
          world_update_index sync_files_def mark_error_def)
  next
    case (Some raw)
    note raw = this
    show ?thesis
    proof (cases "filtered_lines raw = []")
      case True
      then show ?thesis using f raw
        by (simp add: sync_progress_def raw_data_of_def sync_outcome_def sync_row_Inl
            world_update_index sync_files_def mark_error_def remove_database_def)
    next
      case False
      have rb: "create_inner_database p n (remove_database p (fs w))
                  = (fs w)(p \<mapsto> f\<lparr>database := built raw\<rparr>)" for n
        using rebuild_eq [OF f raw] .
      show ?thesis
      proof (cases "built raw")
        case None
        then show ?thesis using f raw False
          by (simp add: sync_progress_def raw_data_of_def sync_outcome_def sync_row_Inl
              world_update_index sync_files_def mark_error_def rb database_of_def Let_def)
      next
        case (Some b)
        then obtain t where t: "built raw = Some (Some t)"
          using built_no_empty_file [of raw] by (cases b) auto
        have ne: "rows t \<noteq> []" using built_rows [OF t] by simp
        obtain pr where pr: "compute_progress (count_labeled t) (int (length (rows t))) = Inr pr"
          by (simp add: compute_progress_spec)
        show ?thesis using f raw False t ne pr
          by (simp add: sync_progress_def raw_data_of_def sync_outcome_def sync_row_Inr [OF pr]
              world_update_index sync_files_def rb database_of_def Let_def sync_counts_def)
      qed
    qed
  qed
qed

lemma sync_files_raw: "raw_data_of (sync_files p files) q = raw_data_of files q"
  by (auto simp: sync_files_def raw_data_of_def split: option.splits)

lemma sync_files_twice: "sync_files p (sync_files p files) = sync_files p files"
  by (auto simp: sync_files_def split: option.splits)

lemma sync_row_id: "wafer_id (sync_row now out r) = wafer_id r"
  by (cases out) (simp_all add: sync_row_def)

lemma sync_row_folder: "folder_path (sync_row now out r) = folder_path r"
  by (cases out) (simp_all add: sync_row_def)

lemma sync_row_twice: "sync_row n2 out (sync_row n1 out r) = sync_row n2 out r"
  by (cases out) (simp_all add: sync_row_def)

lemma sync_row_restamp: "sync_row n2 out r = (sync_row n1 out r)\<lparr>last_operated := n2\<rparr>"
  by (cases out) (simp_all add: sync_row_def)

lemma sync_row_summary: "summary (sync_row n2 out r) = summary (sync_row n1 out r)"
  by (cases out) (simp_all add: sync_row_def summary_def)

lemma sync_row_status: "parsed_status (sync_row now out r) = 1 \<Longrightarrow> \<exists>t. out = Inr t"
  by (cases out) (simp_all add: sync_row_def)

lemma sync_progress_twice:
  "sync_progress n2 wid p (sync_progress n1 wid p w) = sync_progress n2 wid p w"
  by (simp add: sync_progress_normal sync_files_raw sync_files_twice update_wafer_twice
      sync_row_id sync_row_twice)

lemma count_labeled_bounds: "0 \<le> count_labeled t \<and> count_labeled t \<le> int (length (rows t))"
  by (simp add: count_labeled_def sql_where_def)

text \<open>
  C3. For a unit with an index record, a second reconciliation right after a first one
  finds the record again and leaves its total, labeled count, progress and label status
  as the first one left them; it changes nothing in the row but \<open>last_operated\<close>, and
  nothing in the file system.
\<close>

theorem reconcile_idempotent:
  assumes "select_wafer wid (index w) = Some r"
  shows "\<exists>r1 r2.
           select_wafer wid (index (snd (sync_wafer_progress n1 wid w))) = Some r1
         \<and> select_wafer wid
             (index (snd (sync_wafer_progress n2 wid (snd (sync_wafer_progress n1 wid w)))))
             = Some r2
         \<and> summary r2 = summary r1
         \<and> r2 = r1\<lparr>last_operated := n2\<rparr>
         \<and> fst (sync_wafer_progress n2 wid (snd (sync_wafer_progress n1 wid w)))
         \<and> fs (snd (sync_wafer_progress n2 wid (snd (sync_wafer_progress n1 wid w))))
             = fs (snd (sync_wafer_progress n1 wid w))"
proof -
  let ?p = "folder_path r"
  let ?out = "sync_outcome (raw_data_of (fs w) ?p)"
  let ?w1 = "sync_progress n1 wid ?p w"
  have w1: "snd (sync_wafer_progress n1 wid w) = ?w1"
    using assms by (simp add: sync_wafer_progress_def)
  have sel1: "select_wafer wid (index ?w1) = Some (sync_row n1 ?out r)"
    using assms by (simp add: sync_progress_normal select_update_wafer sync_row_id)
  have w2: "sync_wafer_progress n2 wid ?w1 = (True, sync_progress n2 wid ?p w)"
    using sel1 by (simp add: sync_wafer_progress_def sync_row_folder sync_progress_twice)
  have sel2: "select_wafer wid (index (sync_progress n2 wid ?p w)) = Some (sync_row n2 ?out r)"
    using assms by (simp add: sync_progress_normal select_update_wafer sync_row_id)
  have files: "fs (sync_progress n2 wid ?p w) = fs ?w1"
    by (simp add: sync_progress_normal)
  have "summary (sync_row n2 ?out r) = summary (sync_row n1 ?out r)"
    by (rule sync_row_summary)
  moreover have "sync_row n2 ?out r = (sync_row n1 ?out r)\<lparr>last_operated := n2\<rparr>"
    by (rule sync_row_restamp)
  ultimately show ?thesis
    using sel1 sel2 files by (simp add: w1 w2)
qed

lemma count5: "count_labeled table5 = 0"
  by (simp add: count_labeled_def table5_def sql_where_def type_differs_def sql_ne_def
      new_defect_def base_columns_def)

lemma outcome5: "sync_outcome (Some report5) = Inr table5"
  by (simp add: sync_outcome_def filtered5 built5)

lemma sync_row5:
  "sync_row now (Inr table5) (failed_row ''/data/W5'' ''W5'' msg 1) = row5_synced now"
  by (simp add: sync_row_def count5 length5 compute_progress_none_labeled dvalue_zero
      derive_label_status_def failed_row_def row5_synced_def path_digest_def)

lemma select5:
  "select_wafer ''sha256:/data/W5'' (index world5_loaded)
     = Some (failed_row ''/data/W5'' ''W5'' (Values_for_columns 9 8) 1)"
  by (simp add: world5_loaded_def select_wafer_def failed_row_def path_digest_def)

lemma failed_row_sel:
  "wafer_id (failed_row p name msg c) = path_digest p"
  "folder_path (failed_row p name msg c) = p"
  "wafer_name (failed_row p name msg c) = name"
  "label_status (failed_row p name msg c) = 0"
  "last_operated (failed_row p name msg c) = c"
  by (simp_all add: failed_row_def)

lemma digest5: "path_digest ''/data/W5'' = ''sha256:/data/W5''"
  by (simp add: path_digest_def)

lemma sync5:
  "sync_wafer_progress now ''sha256:/data/W5'' world5_loaded
     = (True, \<lparr>index = [row5_synced now],
               fs = [''/data/W5'' \<mapsto> wafer_folder report5 (Some (Some table5))]\<rparr>)"
proof -
  have "sync_progress now ''sha256:/data/W5'' ''/data/W5'' world5_loaded
      = \<lparr>index = [row5_synced now],
         fs = [''/data/W5'' \<mapsto> wafer_folder report5 (Some (Some table5))]\<rparr>"
    by (simp add: sync_progress_normal world5_loaded_def raw_data_of_def wafer_folder_sel
        outcome5 update_wafer_def failed_row_sel digest5 sync_row5 sync_files_def filtered5 built5
        del: One_nat_def)
  then show ?thesis
    by (simp add: sync_wafer_progress_def select5 failed_row_sel)
qed

text \<open>Two reconciliations of the five-row unit, at times 2 and 3.\<close>

theorem reconcile_idempotent_witness:
  "select_wafer ''sha256:/data/W5'' (index world5_loaded)
     = Some (failed_row ''/data/W5'' ''W5'' (Values_for_columns 9 8) 1)
   \<and> (\<exists>r1 r2.
         select_wafer ''sha256:/data/W5''
           (index (snd (sync_wafer_progress 2 ''sha256:/data/W5'' world5_loaded))) = Some r1
       \<and> select_wafer ''sha256:/data/W5''
           (index (snd (sync_wafer_progress 3 ''sha256:/data/W5''
              (snd (sync_wafer_progress 2 ''sha256:/data/W5'' world5_loaded))))) = Some r2
       \<and> summary r1 = (5, 0, 0, 0) \<and> summary r2 = summary r1)"
proof -
  have "select_wafer ''sha256:/data/W5''
          (index (snd (sync_wafer_progress 2 ''sha256:/data/W5'' world5_loaded)))
        = Some (row5_synced 2)"
    by (simp add: sync5 select_wafer_def row5_synced_def)
  moreover have "summary (row5_synced 2) = (5, 0, 0, 0)"
    by (simp add: summary_def row5_synced_def)
  ultimately show ?thesis
    using reconcile_idempotent [OF select5, of 2 3] select5 by auto
qed

text \<open>
  C5. A reconciliation that reaches the progress computation is one that ends with
  \<open>parsed_status = 1\<close> in the unit's row. The row then holds \<open>0 \<le> labeled \<le> total\<close> and
  the progress \<open>round(labeled / total * 100, 2)\<close> when the total is positive, 0 otherwise.
  The computation itself returns a value for all counts \<open>0 \<le> labeled \<le> total\<close>, also for
  a total of 0: no \<open>ZeroDivisionError\<close> is raised.
\<close>

theorem stored_progress_formula:
  assumes "r' \<in> set (index (sync_progress now wid p w))"
    and "wafer_id r' = wid"
    and "parsed_status r' = 1"
  shows "(0 \<le> labeled \<and> labeled \<le> total_n \<longrightarrow>
            compute_progress labeled total_n
              = Inr (if 0 < total_n then spec_progress labeled total_n else (0, 0)))
       \<and> dvalue (0, 0) = 0
       \<and> 0 \<le> labeled_defects r' \<and> labeled_defects r' \<le> total_defects r'
       \<and> progress r' = (if 0 < total_defects r'
                           then dvalue (spec_progress (labeled_defects r') (total_defects r'))
                           else 0)"
proof -
  let ?out = "sync_outcome (raw_data_of (fs w) p)"
  from assms(1) obtain r where r: "r \<in> set (index w)"
    and r': "r' = (if wafer_id r = wid then sync_row now ?out r else r)"
    by (auto simp: sync_progress_normal update_wafer_def)
  have "wafer_id r = wid" using r' assms(2) by (auto simp: sync_row_id split: if_splits)
  then have eq: "r' = sync_row now ?out r" using r' by simp
  then obtain t where t: "?out = Inr t" using assms(3) sync_row_status by blast
  show ?thesis
    using eq t count_labeled_bounds [of t]
    by (simp add: sync_row_def compute_progress_spec dvalue_zero)
qed

text \<open>The five-row unit after a reconciliation at time 2: total 5, labeled 0, progress 0.\<close>

theorem stored_progress_formula_witness:
  "row5_synced 2 \<in> set (index (sync_progress 2 ''sha256:/data/W5'' ''/data/W5'' world5_loaded))
   \<and> wafer_id (row5_synced 2) = ''sha256:/data/W5''
   \<and> parsed_status (row5_synced 2) = 1
   \<and> compute_progress 1 5 = Inr (spec_progress 1 5)
   \<and> dvalue (spec_progress 1 5) = 20
   \<and> compute_progress 0 0 = Inr (0, 0)
   \<and> total_defects (row5_synced 2) = 5 \<and> labeled_defects (row5_synced 2) = 0
   \<and> progress (row5_synced 2) = dvalue (spec_progress 0 5)"
proof -
  have mem: "row5_synced 2
      \<in> set (index (sync_progress 2 ''sha256:/data/W5'' ''/data/W5'' world5_loaded))"
    using sync5 [of 2] by (simp add: sync_wafer_progress_def select5 failed_row_sel)
  have id: "wafer_id (row5_synced 2) = ''sha256:/data/W5''"
    and st: "parsed_status (row5_synced 2) = 1"
    by (simp_all add: row5_synced_def)
  have twenty: "dvalue (spec_progress 1 5) = 20"
    by (simp add: spec_progress_def float_eval)
  show ?thesis
    using stored_progress_formula [OF mem id st, of 1 5]
      stored_progress_formula [OF mem id st, of 0 0] mem twenty
    by (simp add: row5_synced_def)
qed

lemma parse_line_unlabeled: "parse_line l = Some d \<Longrightarrow> adc_type d = None"
  by (auto simp: parse_line_def Let_def split: if_splits option.splits)

lemma map_filter_parse_unlabeled:
  "d \<in> set (List.map_filter parse_line ls) \<Longrightarrow> adc_type d = None"
  by (induction ls) (auto simp: parse_line_unlabeled split: option.splits)

lemma parsed_rows_unlabeled: "d \<in> set (parsed_rows raw) \<Longrightarrow> adc_type d = None"
  by (simp add: parsed_rows_def insert_data_of_def map_filter_parse_unlabeled)

lemma count_labeled_built: "built raw = Some (Some t) \<Longrightarrow> count_labeled t = 0"
proof -
  assume b: "built raw = Some (Some t)"
  then have t: "t = \<lparr>columns = base_columns, rows = stored_rows raw\<rparr>"
    by (auto simp: built_def split: if_splits)
  have "set (stored_rows raw) \<subseteq> set (parsed_rows raw)"
    using ior_subset [of "[]" "parsed_rows raw"] by (simp add: stored_rows_def parsed_rows_def)
  then have "type_differs d \<noteq> Some True" if "d \<in> set (stored_rows raw)" for d
    using that parsed_rows_unlabeled [of d raw] by (auto simp: type_differs_def sql_ne_def)
  then have "filter (\<lambda>d. type_differs d = Some True) (stored_rows raw) = []"
    by (simp add: filter_empty_conv)
  then show ?thesis
    by (simp add: t count_labeled_def base_columns_def sql_where_def)
qed

text \<open>
  Every reconciliation that succeeds writes a labeled count of 0, a progress of 0 and the
  status \<open>not_started\<close>: the table it counts is the one it has just rebuilt from the report.
\<close>

lemma reconcile_forgets_labels:
  assumes "r' \<in> set (index (sync_progress now wid p w))"
    and "wafer_id r' = wid"
    and "parsed_status r' = 1"
  shows "labeled_defects r' = 0 \<and> progress r' = 0 \<and> label_status r' = 0"
proof -
  let ?out = "sync_outcome (raw_data_of (fs w) p)"
  from assms(1) obtain r where r: "r \<in> set (index w)"
    and r': "r' = (if wafer_id r = wid then sync_row now ?out r else r)"
    by (auto simp: sync_progress_normal update_wafer_def)
  have "wafer_id r = wid" using r' assms(2) by (auto simp: sync_row_id split: if_splits)
  then have eq: "r' = sync_row now ?out r" using r' by simp
  then obtain t where t: "?out = Inr t" using assms(3) sync_row_status by blast
  then obtain raw where "built raw = Some (Some t)"
    by (auto simp: sync_outcome_def split: option.splits if_splits)
  then have "count_labeled t = 0" by (rule count_labeled_built)
  then show ?thesis
    using eq t
    by (simp add: sync_row_def compute_progress_none_labeled dvalue_zero derive_label_status_def)
qed

subsection \<open>Reset\<close>

text \<open>
  C9, as the code has it. For an id without an index row \<open>reset_wafer_status\<close> returns
  \<open>False\<close> and changes nothing. For an id with a row it returns \<open>True\<close>, removes the
  unit's database file and nothing else from the file system, and in the index changes
  the rows of that id only, in three fields: \<open>parsed_status\<close> becomes 0, \<open>parse_error\<close>
  becomes \<open>NULL\<close> and \<open>last_operated\<close> becomes the current time.
\<close>

theorem reset_wafer_status_effect:
  "(case select_wafer wid (index w) of
      None \<Rightarrow> reset_wafer_status now wid w = (False, w)
    | Some r \<Rightarrow>
        fst (reset_wafer_status now wid w)
        \<and> database_of (fs (snd (reset_wafer_status now wid w))) (folder_path r) = None
        \<and> raw_data_of (fs (snd (reset_wafer_status now wid w))) = raw_data_of (fs w)
        \<and> (\<forall>q. q \<noteq> folder_path r \<longrightarrow> fs (snd (reset_wafer_status now wid w)) q = fs w q)
        \<and> select_wafer wid (index (snd (reset_wafer_status now wid w)))
            = Some (r\<lparr>parsed_status := 0, parse_error := None, last_operated := now\<rparr>)
        \<and> index (snd (reset_wafer_status now wid w))
            = map (\<lambda>x. if wafer_id x = wid
                        then x\<lparr>parsed_status := 0, parse_error := None, last_operated := now\<rparr>
                        else x) (index w))"
proof (cases "select_wafer wid (index w)")
  case None
  then show ?thesis by (simp add: reset_wafer_status_def)
next
  case (Some r)
  have "raw_data_of (remove_database (folder_path r) (fs w)) = raw_data_of (fs w)"
    by (rule ext) (auto simp: raw_data_of_def remove_database_def split: option.splits)
  moreover have "select_wafer wid (update_wafer wid
        (\<lambda>x. x\<lparr>parsed_status := 0, parse_error := None, last_operated := now\<rparr>) (index w))
      = Some (r\<lparr>parsed_status := 0, parse_error := None, last_operated := now\<rparr>)"
    using Some by (simp add: select_update_wafer)
  moreover have "update_wafer wid
        (\<lambda>x. x\<lparr>parsed_status := 0, parse_error := None, last_operated := now\<rparr>) (index w)
      = map (\<lambda>x. if wafer_id x = wid
                  then x\<lparr>parsed_status := 0, parse_error := None, last_operated := now\<rparr>
                  else x) (index w)"
    by (simp add: update_wafer_def)
  ultimately show ?thesis
    using Some
    by (auto simp: reset_wafer_status_def database_of_def remove_database_def
        split: option.splits)
qed

text \<open>Resetting the five-row unit at time 2, and resetting an id the index does not have.\<close>

theorem reset_wafer_status_effect_witness:
  "select_wafer ''sha256:/data/W5'' (index world5_loaded)
     = Some (failed_row ''/data/W5'' ''W5'' (Values_for_columns 9 8) 1)
   \<and> fst (reset_wafer_status 2 ''sha256:/data/W5'' world5_loaded)
   \<and> database_of (fs (snd (reset_wafer_status 2 ''sha256:/data/W5'' world5_loaded)))
        (folder_path (failed_row ''/data/W5'' ''W5'' (Values_for_columns 9 8) 1))
       = None
   \<and> select_wafer ''sha256:/data/W5''
        (index (snd (reset_wafer_status 2 ''sha256:/data/W5'' world5_loaded)))
       = Some ((failed_row ''/data/W5'' ''W5'' (Values_for_columns 9 8) 1)
                 \<lparr>parsed_status := 0, parse_error := None, last_operated := 2\<rparr>)
   \<and> select_wafer ''absent'' (index world5_loaded) = None
   \<and> reset_wafer_status 2 ''absent'' world5_loaded = (False, world5_loaded)"
proof -
  have absent: "select_wafer ''absent'' (index world5_loaded) = None"
    by (simp add: world5_loaded_def select_wafer_def failed_row_sel digest5)
  note present = reset_wafer_status_effect
    [where wid = "''sha256:/data/W5''" and w = world5_loaded and now = 2,
      unfolded select5 option.case]
  note missing = reset_wafer_status_effect
    [where wid = "''absent''" and w = world5_loaded and now = 2, unfolded absent option.case]
  show ?thesis
    using present missing select5 absent by blast
qed

text \<open>
  C9 as stated fails on "all other fields unchanged": the row of the five-row unit was
  last operated at time 1, and after a reset at time 2 its \<open>last_operated\<close> is 2.
\<close>

theorem reset_wafer_status_counterexample:
  "map_option last_operated (select_wafer ''sha256:/data/W5'' (index world5_loaded)) = Some 1
   \<and> map_option last_operated
        (select_wafer ''sha256:/data/W5''
           (index (snd (reset_wafer_status 2 ''sha256:/data/W5'' world5_loaded))))
       = Some 2"
  by (simp add: reset_wafer_status_def select5 select_update_wafer failed_row_sel)

subsection \<open>Export\<close>

lemma sql_where_type_differs: "sql_where type_differs rs = filter differs rs"
  by (induction rs)
     (auto simp: sql_where_def type_differs_def sql_ne_def differs_def split: option.splits)

text \<open>
  What \<open>export_wafer_kfl\<close> does for a unit in the index in two of the three states of its
  folder. Without a database file it returns the error "inner database does not exist"
  and no file. With a detail store it returns a file with a title line, the header line
  and one line per exported row: every row when \<open>export_all\<close> is set or the unit's
  \<open>label_status\<close> is 2, otherwise the rows whose \<open>adc_type\<close> is set and is not the
  \<open>ai_adc_type\<close> (SQL \<open>!=\<close> is not true of a \<open>NULL\<close> \<open>adc_type\<close>, so an unlabeled row is
  not exported). The third state, a database file without the table, is the subject of
  \<open>export_wafer_kfl_example\<close> below.
\<close>

lemma export_wafer_kfl_rows:
  assumes "select_wafer wid (index w) = Some r"
  shows "(database_of (fs w) (folder_path r) = None \<longrightarrow>
            export_wafer_kfl wid export_all w = Inr (Inl Inner_db_missing))
       \<and> (\<forall>t. database_of (fs w) (folder_path r) = Some (Some t) \<longrightarrow>
            export_wafer_kfl wid export_all w =
              Inr (Inr \<lparr>file_name = wafer_name r @ ''_defects.kfl'',
                        file_lines =
                          (''KFL Export for '' @ wafer_name r)
                          # ''defect_id,center_x,center_y,ai_adc_type,adc_type''
                          # map kfl_line (if export_all \<or> label_status r = 2 then rows t
                                          else filter differs (rows t))\<rparr>))"
  using assms by (simp add: export_wafer_kfl_def export_rows_def sql_where_type_differs)

lemmas kfl_eval = kfl_line_def str_int_def str_opt_int_def digits10.simps new_defect_def

lemma kfl_lines5:
  "map kfl_line (rows table5)
     = [''D1,10,20,3,None'', ''D2,11,21,1,None'', ''D3,12,22,5,None'', ''D4,13,23,2,None'',
        ''D5,14,24,4,None'']"
  by (simp add: table5_def kfl_eval)

lemma no_row_differs5: "filter differs (rows table5) = []"
  by (simp add: table5_def differs_def new_defect_def)

lemma database5: "database_of (fs world5_loaded) ''/data/W5'' = Some (Some table5)"
  by (simp add: world5_loaded_def database_of_def wafer_folder_sel)

lemma select_b:
  "select_wafer ''sha256:/data/WB'' (index (world_ab_loaded db))
     = Some (failed_row ''/data/WB'' ''WB'' Images_missing 1)"
  by (simp add: world_ab_loaded_def select_wafer_def failed_row_sel path_digest_def)

lemma select_a:
  "select_wafer ''sha256:/data/W5'' (index (world_ab_loaded db))
     = Some (failed_row ''/data/W5'' ''W5'' (Values_for_columns 9 8) 1)"
  by (simp add: world_ab_loaded_def select_wafer_def failed_row_sel path_digest_def)

lemma database_ab:
  "database_of (fs (world_ab_loaded db)) ''/data/WB'' = db"
  "database_of (fs (world_ab_loaded db)) ''/data/W5'' = Some (Some table5)"
  by (simp_all add: world_ab_loaded_def database_of_def wafer_folder_sel folder_b_def)

text \<open>
  The five-row unit, none of its rows labeled: the full export has five data lines, the
  default export none; a unit without a database file gets the error.
\<close>

lemma export_wafer_kfl_rows_example:
  "select_wafer ''sha256:/data/W5'' (index world5_loaded)
     = Some (failed_row ''/data/W5'' ''W5'' (Values_for_columns 9 8) 1)
   \<and> export_wafer_kfl ''sha256:/data/W5'' True world5_loaded
       = Inr (Inr \<lparr>file_name = ''W5_defects.kfl'',
                 file_lines = [''KFL Export for W5'',
                               ''defect_id,center_x,center_y,ai_adc_type,adc_type'',
                               ''D1,10,20,3,None'', ''D2,11,21,1,None'', ''D3,12,22,5,None'',
                               ''D4,13,23,2,None'', ''D5,14,24,4,None'']\<rparr>)
   \<and> export_wafer_kfl ''sha256:/data/W5'' False world5_loaded
       = Inr (Inr \<lparr>file_name = ''W5_defects.kfl'',
                 file_lines = [''KFL Export for W5'',
                               ''defect_id,center_x,center_y,ai_adc_type,adc_type'']\<rparr>)
   \<and> select_wafer ''sha256:/data/WB'' (index (world_ab_loaded None))
       = Some (failed_row ''/data/WB'' ''WB'' Images_missing 1)
   \<and> export_wafer_kfl ''sha256:/data/WB'' False (world_ab_loaded None)
       = Inr (Inl Inner_db_missing)"
  using export_wafer_kfl_rows [OF select5, of True] export_wafer_kfl_rows [OF select5, of False]
    export_wafer_kfl_rows [OF select_b [of None], of False] select5 select_b [of None]
  by (simp add: database5 database_ab failed_row_sel kfl_lines5 no_row_differs5)

lemma touch_b:
  "save_label 2 ''sha256:/data/WB'' 0 ''Scratch'' None None (world_ab_loaded None)
     = (world_ab_loaded (Some None), Failure (No_such_table ''defect_info''))"
  by (simp add: save_label_def select_b)
     (simp add: world_ab_loaded_def folder_b_def failed_row_sel)

text \<open>
  C7 on the unit \<open>WB\<close>, which is in the index and has no detail store. As long as its
  folder has no \<open>database.db\<close>, the export returns the error "inner database does not
  exist". A labeling call for the unit fails, but its \<open>sqlite3.connect\<close> has left an empty
  \<open>database.db\<close> in the folder. From then on \<open>export_wafer_kfl\<close> passes the existence
  check, and its \<open>SELECT\<close> raises "no such table: defect_info" out of the method, with
  \<open>export_all\<close> set or not: no rows are exported and no error is returned. The batch
  export of C8 fails on the same exception.
\<close>

theorem export_wafer_kfl_example:
  "select_wafer ''sha256:/data/WB'' (index (world_ab_loaded None))
     = Some (failed_row ''/data/WB'' ''WB'' Images_missing 1)
   \<and> database_of (fs (world_ab_loaded None)) ''/data/WB'' = None
   \<and> export_wafer_kfl ''sha256:/data/WB'' False (world_ab_loaded None)
       = Inr (Inl Inner_db_missing)
   \<and> save_label 2 ''sha256:/data/WB'' 0 ''Scratch'' None None (world_ab_loaded None)
       = (world_ab_loaded (Some None), Failure (No_such_table ''defect_info''))
   \<and> select_wafer ''sha256:/data/WB'' (index (world_ab_loaded (Some None)))
       = Some (failed_row ''/data/WB'' ''WB'' Images_missing 1)
   \<and> database_of (fs (world_ab_loaded (Some None))) ''/data/WB'' = Some None
   \<and> export_wafer_kfl ''sha256:/data/WB'' False (world_ab_loaded (Some None))
       = Inl (OperationalError, No_such_table ''defect_info'')
   \<and> export_wafer_kfl ''sha256:/data/WB'' True (world_ab_loaded (Some None))
       = Inl (OperationalError, No_such_table ''defect_info'')"
  using select_b [of None] select_b [of "Some None"] touch_b
  by (simp add: export_wafer_kfl_def failed_row_sel database_ab)

text \<open>The export of the unit after the failed labeling call.\<close>

theorem export_wafer_kfl_example_witness:
  "\<exists>w. fst (save_label 2 ''sha256:/data/WB'' 0 ''Scratch'' None None (world_ab_loaded None)) = w
     \<and> map wafer_id (index w) = [''sha256:/data/W5'', ''sha256:/data/WB'']
     \<and> database_of (fs w) ''/data/WB'' = Some None
     \<and> export_wafer_kfl ''sha256:/data/WB'' False w
         = Inl (OperationalError, No_such_table ''defect_info'')
     \<and> export_wafer_kfl ''sha256:/data/WB'' True w
         = Inl (OperationalError, No_such_table ''defect_info'')"
  using export_wafer_kfl_example
  by (simp add: world_ab_loaded_def failed_row_sel path_digest_def)

text \<open>
  What \<open>batch_export_kfl\<close> does as long as no export raises: an id whose export returns
  an error adds nothing, and the batch returns its own error exactly when the list of
  exported files is empty.
\<close>

lemma batch_loop_skips:
  "export_wafer_kfl wid False w = Inr (Inl msg) \<Longrightarrow>
   batch_loop w (wid # wids) st = batch_loop w wids st"
  by simp

lemma batch_loop_raises:
  "export_wafer_kfl wid False w = Inl e \<Longrightarrow> batch_loop w (wid # wids) st = Inl e"
  by simp

lemma batch_loop_grows:
  "batch_loop w wids st = Inr st' \<Longrightarrow> \<exists>more. snd st' = snd st @ more"
proof (induction wids arbitrary: st)
  case Nil
  then show ?case by simp
next
  case (Cons wid wids)
  show ?case
  proof (cases "export_wafer_kfl wid False w")
    case (Inl e)
    then show ?thesis using Cons.prems by simp
  next
    case (Inr res)
    show ?thesis
    proof (cases res)
      case (Inl msg)
      then show ?thesis using Cons Inr by simp
    next
      case (Inr f)
      then obtain more where "snd st' = (snd st @ [file_name f]) @ more"
        using Cons.IH [of "((fst st)(file_name f \<mapsto> file_lines f), snd st @ [file_name f])"]
          Cons.prems \<open>export_wafer_kfl wid False w = Inr res\<close> by auto
      then show ?thesis by simp
    qed
  qed
qed

lemma batch_loop_all_fail:
  "batch_loop w wids st = Inr st' \<Longrightarrow>
   (snd st' = snd st) = (\<forall>wid \<in> set wids. \<exists>msg. export_wafer_kfl wid False w = Inr (Inl msg))"
proof (induction wids arbitrary: st)
  case Nil
  then show ?case by simp
next
  case (Cons wid wids)
  show ?case
  proof (cases "export_wafer_kfl wid False w")
    case (Inl e)
    then show ?thesis using Cons.prems by simp
  next
    case (Inr res)
    note res = this
    show ?thesis
    proof (cases res)
      case (Inl msg)
      then show ?thesis using Cons res by simp
    next
      case (Inr f)
      let ?st = "((fst st)(file_name f \<mapsto> file_lines f), snd st @ [file_name f])"
      have loop: "batch_loop w wids ?st = Inr st'"
        using Cons.prems res Inr by simp
      then obtain more where "snd st' = snd ?st @ more"
        using batch_loop_grows by blast
      then have "snd st' \<noteq> snd st" by simp
      then show ?thesis using res Inr by simp
    qed
  qed
qed

lemma batch_export_error_iff:
  assumes "batch_export_kfl wids w = Inr res"
  shows "(res = Inl No_exportable_wafer)
           = (\<forall>wid \<in> set wids. \<exists>msg. export_wafer_kfl wid False w = Inr (Inl msg))"
proof -
  from assms obtain st where st: "batch_loop w wids (Map.empty, []) = Inr st"
    and res: "res = (if snd st \<noteq> [] then Inr (map (zip_entry (fst st)) (snd st))
                     else Inl No_exportable_wafer)"
    by (auto simp: batch_export_kfl_def split: sum.splits if_splits)
  have "(snd st = []) = (\<forall>wid \<in> set wids. \<exists>msg. export_wafer_kfl wid False w = Inr (Inl msg))"
    using batch_loop_all_fail [OF st] by simp
  then show ?thesis using res by auto
qed

subsection \<open>Discovery\<close>

text \<open>
  The \<open>INSERT\<close> of the two parse branches names eight columns and binds nine values, so
  SQLite rejects it whatever the values are.
\<close>

lemma insert_parsed_fails:
  "insert_parsed wid name p total_n now idx = Inl (OperationalError, Values_for_columns 9 8)"
  by (simp add: insert_parsed_def sql_insert_def)

lemma parse_and_insert_fails:
  "parse_wafer_folder p (fs w) = Inr (n, files) \<Longrightarrow>
   parse_and_insert now wid p w
     = (\<lparr>index = index w, fs = files\<rparr>, Inl (OperationalError, Values_for_columns 9 8))"
  by (simp add: parse_and_insert_def insert_parsed_fails)

lemma insert_failed_fresh:
  "insert_failed (path_digest p) name p msg now [] = Inr [failed_row p name msg now]"
  by (simp add: insert_failed_def sql_insert_def default_row_def failed_row_def)

lemma load_loop_single:
  "load_loop h now [p] wc = load_folder h now p wc"
  by (cases "load_folder h now p wc") simp_all

lemma basename_examples:
  "basename ''/data/W4'' = ''W4''" "basename ''/data/W5'' = ''W5''" "basename ''/data/WB'' = ''WB''"
  by (simp_all add: basename_def)

lemma report_lengths: "length report4 = 5" "length report5 = 6"
  by (simp_all add: report4_def report5_def text_lines_def)

lemma twist_ab:
  "[''/data/WB'' \<mapsto> b, ''/data/W5'' \<mapsto> a] = [''/data/W5'' \<mapsto> a, ''/data/WB'' \<mapsto> b]"
  by (rule ext) simp

lemma parse_folder4:
  "parse_wafer_folder ''/data/W4'' (fs world4)
     = Inr (4, [''/data/W4'' \<mapsto> wafer_folder report4 (Some (Some table3))])"
  by (simp add: parse_wafer_folder_def world4_def wafer_folder_sel create_inner_database_def
      create_in_folder_built built4 report_lengths)

lemma parse_folder5:
  "parse_wafer_folder ''/data/W5'' [''/data/W5'' \<mapsto> wafer_folder report5 None]
     = Inr (5, [''/data/W5'' \<mapsto> wafer_folder report5 (Some (Some table5))])"
  by (simp add: parse_wafer_folder_def wafer_folder_sel create_inner_database_def
      create_in_folder_built built5 report_lengths)

lemma load5:
  "load_wafer_folders path_digest 1 [''/data/W5''] world5
     = Inr (world5_loaded, \<lparr>total_processed = 1, success = 0, failed = 1\<rparr>)"
proof -
  have "parse_and_insert 1 (path_digest ''/data/W5'') ''/data/W5'' world5
      = (\<lparr>index = [], fs = [''/data/W5'' \<mapsto> wafer_folder report5 (Some (Some table5))]\<rparr>,
         Inl (OperationalError, Values_for_columns 9 8))"
    using parse_and_insert_fails [of "''/data/W5''" world5 5
        "[''/data/W5'' \<mapsto> wafer_folder report5 (Some (Some table5))]"] parse_folder5
    by (simp add: world5_def)
  then show ?thesis
    unfolding load_wafer_folders_def load_loop_single
    by (simp add: load_folder_def Let_def world5_def select_wafer_def database_of_def
        wafer_folder_sel str_exn_def basename_examples insert_failed_fresh world5_loaded_def
        del: One_nat_def)
qed

text \<open>
  C2 on the report with three well-formed lines and the malformed line \<open>X,1,2\<close>, in a
  folder with both images, no index record and no database. The detail store is built
  with the three rows, but the index record that discovery inserts has
  \<open>parsed_status = 2\<close> (error) with the message "9 values for 8 columns" and the default
  \<open>total_defects = 0\<close>; the folder is counted as failed. The count that
  \<open>_parse_wafer_folder\<close> returned for the record is 4, the number of physical lines
  minus one.
\<close>

theorem load_fresh_folder_example:
  "load_wafer_folders path_digest 1 [''/data/W4''] world4
     = Inr (\<lparr>index = [failed_row ''/data/W4'' ''W4'' (Values_for_columns 9 8) 1],
             fs = [''/data/W4'' \<mapsto> wafer_folder report4 (Some (Some table3))]\<rparr>,
            \<lparr>total_processed = 1, success = 0, failed = 1\<rparr>)
   \<and> parsed_status (failed_row ''/data/W4'' ''W4'' (Values_for_columns 9 8) 1) = 2
   \<and> total_defects (failed_row ''/data/W4'' ''W4'' (Values_for_columns 9 8) 1) = 0
   \<and> length (rows table3) = 3
   \<and> parse_wafer_folder ''/data/W4'' (fs world4)
       = Inr (4, [''/data/W4'' \<mapsto> wafer_folder report4 (Some (Some table3))])"
proof -
  have "parse_and_insert 1 (path_digest ''/data/W4'') ''/data/W4'' world4
      = (\<lparr>index = [], fs = [''/data/W4'' \<mapsto> wafer_folder report4 (Some (Some table3))]\<rparr>,
         Inl (OperationalError, Values_for_columns 9 8))"
    using parse_and_insert_fails [OF parse_folder4] by (simp add: world4_def)
  then have "load_wafer_folders path_digest 1 [''/data/W4''] world4
     = Inr (\<lparr>index = [failed_row ''/data/W4'' ''W4'' (Values_for_columns 9 8) 1],
             fs = [''/data/W4'' \<mapsto> wafer_folder report4 (Some (Some table3))]\<rparr>,
            \<lparr>total_processed = 1, success = 0, failed = 1\<rparr>)"
    unfolding load_wafer_folders_def load_loop_single
    by (simp add: load_folder_def Let_def world4_def select_wafer_def database_of_def
        wafer_folder_sel str_exn_def basename_examples insert_failed_fresh del: One_nat_def)
  then show ?thesis
    using parse_folder4 by (simp add: failed_row_def table3_def)
qed

text \<open>What discovery recorded for that folder.\<close>

theorem load_fresh_folder_example_witness:
  "\<exists>w c. load_wafer_folders path_digest 1 [''/data/W4''] world4 = Inr (w, c)
     \<and> map parsed_status (index w) = [2]
     \<and> map parse_error (index w) = [Some (Values_for_columns 9 8)]
     \<and> map total_defects (index w) = [0]
     \<and> database_of (fs w) ''/data/W4'' = Some (Some table3)
     \<and> success c = 0 \<and> failed c = 1"
  using load_fresh_folder_example
  by (simp add: failed_row_def database_of_def wafer_folder_sel)

subsection \<open>Labeling\<close>

lemma write_label_out_of_range:
  "defect_index < 0 \<or> int (length (rows t)) \<le> defect_index \<Longrightarrow>
   write_label now defect_index a sev com t = t"
  by (auto simp: write_label_def select_defect_ids_def)

lemma world_same_fs: "fs w p = Some f \<Longrightarrow> w\<lparr>fs := (fs w)(p \<mapsto> f)\<rparr> = w"
  by (cases w) (simp add: fun_upd_idem)

text \<open>
  C10. For a unit in the index whose folder holds a detail store, a labeling call with a
  row selector below 0 or not below the number of rows writes nothing into the store,
  runs the reconciliation of the unit on the unchanged state and returns success.
\<close>

theorem save_label_out_of_range:
  assumes "select_wafer wid (index w) = Some r"
    and "fs w (folder_path r) = Some f"
    and "database f = Some (Some t)"
    and "defect_index < 0 \<or> int (length (rows t)) \<le> defect_index"
  shows "save_label now wid defect_index adc_type_name severity_arg comment_arg w
           = (snd (sync_wafer_progress now wid w), Success Label_saved)
       \<and> fst (sync_wafer_progress now wid w)
       \<and> snd (sync_wafer_progress now wid w) = sync_progress now wid (folder_path r) w
       \<and> write_label now defect_index (type_map adc_type_name) sev com t = t"
proof -
  have same: "f\<lparr>database := Some (Some t)\<rparr> = f"
    using assms(3) by (cases f) simp
  show ?thesis
    using assms
    by (simp add: save_label_def write_label_out_of_range same world_same_fs Let_def
        sync_wafer_progress_def)
qed

lemma folder5_loaded:
  "fs world5_loaded ''/data/W5'' = Some (wafer_folder report5 (Some (Some table5)))"
  by (simp add: world5_loaded_def)

text \<open>Row selectors 5 and -1 on the five-row unit, at time 2.\<close>

theorem save_label_out_of_range_witness:
  "select_wafer ''sha256:/data/W5'' (index world5_loaded)
     = Some (failed_row ''/data/W5'' ''W5'' (Values_for_columns 9 8) 1)
   \<and> fs world5_loaded ''/data/W5'' = Some (wafer_folder report5 (Some (Some table5)))
   \<and> int (length (rows table5)) \<le> 5
   \<and> save_label 2 ''sha256:/data/W5'' 5 ''Scratch'' None None world5_loaded
       = (\<lparr>index = [row5_synced 2],
            fs = [''/data/W5'' \<mapsto> wafer_folder report5 (Some (Some table5))]\<rparr>,
          Success Label_saved)
   \<and> save_label 2 ''sha256:/data/W5'' (- 1) ''Scratch'' None None world5_loaded
       = (\<lparr>index = [row5_synced 2],
            fs = [''/data/W5'' \<mapsto> wafer_folder report5 (Some (Some table5))]\<rparr>,
          Success Label_saved)"
proof -
  have f: "fs world5_loaded
        (folder_path (failed_row ''/data/W5'' ''W5'' (Values_for_columns 9 8) 1))
      = Some (wafer_folder report5 (Some (Some table5)))"
    by (simp add: failed_row_sel folder5_loaded)
  have d: "database (wafer_folder report5 (Some (Some table5))) = Some (Some table5)"
    by (simp add: wafer_folder_sel)
  have hi: "(5::int) < 0 \<or> int (length (rows table5)) \<le> 5"
    and lo: "(- 1::int) < 0 \<or> int (length (rows table5)) \<le> - 1"
    by (simp_all add: length5)
  show ?thesis
    using save_label_out_of_range [OF select5 f d hi, of 2 "''Scratch''" None None]
      save_label_out_of_range [OF select5 f d lo, of 2 "''Scratch''" None None]
      select5 folder5_loaded
    by (simp add: sync5 [of 2, simplified] length5)
qed

lemma write5: "write_label 2 0 (type_map ''Scratch'') [] [] table5 = table5_labeled"
  by (simp add: write_label_def select_defect_ids_def table5_def new_defect_def type_map_def
      add_label_columns_def add_column_def base_columns_def update_label_def
      table5_labeled_def Let_def)

lemma count5_labeled: "count_labeled table5_labeled = 1"
  by (simp add: count_labeled_def table5_labeled_def sql_where_def sql_ge_def new_defect_def
      base_columns_def)

lemma one_of_five:
  "compute_progress 1 5 = Inr (5629499534213120, - 48)"
  "dvalue (5629499534213120, - 48) = 20"
  "derive_label_status (5629499534213120, - 48) 1 = 1"
  by (simp_all add: compute_progress_def int_truediv_def derive_label_status_def float_eval)

text \<open>
  C1 on the five-row unit, discovered at time 1 and labeled at time 2. The write sets
  \<open>adc_type = 2\<close> and \<open>label_count = 1\<close> on row 0, and a count on that table would give
  1 labeled defect, progress 20.00 and status \<open>in_progress\<close>. But the reconciliation that
  \<open>save_label\<close> runs before it returns rebuilds the store from the report: when the call
  returns, the store is the unlabeled five-row table again, and the index row holds 0
  labeled defects, progress 0 and status \<open>not_started\<close> (0).
\<close>

theorem save_label_row0_example:
  "load_wafer_folders path_digest 1 [''/data/W5''] world5
     = Inr (world5_loaded, \<lparr>total_processed = 1, success = 0, failed = 1\<rparr>)
   \<and> write_label 2 0 (type_map ''Scratch'') [] [] table5 = table5_labeled
   \<and> map (\<lambda>d. (defect_id d, adc_type d, label_count d)) (rows table5_labeled)
       = [(''D1'', Some 2, Some 1), (''D2'', None, Some 0), (''D3'', None, Some 0),
          (''D4'', None, Some 0), (''D5'', None, Some 0)]
   \<and> count_labeled table5_labeled = 1
   \<and> compute_progress 1 5 = Inr (5629499534213120, - 48)
   \<and> dvalue (5629499534213120, - 48) = 20
   \<and> derive_label_status (5629499534213120, - 48) 1 = 1
   \<and> save_label 2 ''sha256:/data/W5'' 0 ''Scratch'' None None world5_loaded
       = (\<lparr>index = [row5_synced 2],
            fs = [''/data/W5'' \<mapsto> wafer_folder report5 (Some (Some table5))]\<rparr>,
          Success Label_saved)
   \<and> summary (row5_synced 2) = (5, 0, 0, 0)
   \<and> map (\<lambda>d. (defect_id d, adc_type d)) (rows table5)
       = [(''D1'', None), (''D2'', None), (''D3'', None), (''D4'', None), (''D5'', None)]
   \<and> columns table5 = base_columns"
proof -
  have sync: "sync_progress 2 ''sha256:/data/W5'' ''/data/W5''
        \<lparr>index = [failed_row ''/data/W5'' ''W5'' (Values_for_columns 9 8) 1],
         fs = [''/data/W5'' \<mapsto> wafer_folder report5 (Some (Some table5_labeled))]\<rparr>
      = \<lparr>index = [row5_synced 2],
         fs = [''/data/W5'' \<mapsto> wafer_folder report5 (Some (Some table5))]\<rparr>"
    by (simp add: sync_progress_normal raw_data_of_def wafer_folder_sel
        outcome5 update_wafer_def failed_row_sel digest5 sync_row5 sync_files_def filtered5 built5
        del: One_nat_def)
  have save: "save_label 2 ''sha256:/data/W5'' 0 ''Scratch'' None None world5_loaded
       = (\<lparr>index = [row5_synced 2],
            fs = [''/data/W5'' \<mapsto> wafer_folder report5 (Some (Some table5))]\<rparr>,
          Success Label_saved)"
    by (simp add: save_label_def select5 failed_row_sel folder5_loaded wafer_folder_sel write5
        Let_def sync_wafer_progress_def)
       (simp add: world5_loaded_def select_wafer_def failed_row_sel digest5 sync
          del: One_nat_def)
  show ?thesis
    using load5 write5 count5_labeled one_of_five save
    by (simp add: table5_labeled_def table5_def new_defect_def summary_def row5_synced_def)
qed

text \<open>What the labeling call left in the index and in the store.\<close>

theorem save_label_row0_example_witness:
  "\<exists>w. save_label 2 ''sha256:/data/W5'' 0 ''Scratch'' None None world5_loaded
          = (w, Success Label_saved)
     \<and> map summary (index w) = [(5, 0, 0, 0)]
     \<and> database_of (fs w) ''/data/W5'' = Some (Some table5)
     \<and> map adc_type (rows table5) = [None, None, None, None, None]"
  using save_label_row0_example
  by (simp add: database_of_def wafer_folder_sel table5_def new_defect_def)

subsection \<open>Batch export\<close>

lemma load_ab:
  "load_wafer_folders path_digest 1 [''/data/W5'', ''/data/WB''] world_ab
     = Inr (world_ab_loaded None, \<lparr>total_processed = 2, success = 0, failed = 2\<rparr>)"
proof -
  let ?files = "[''/data/W5'' \<mapsto> wafer_folder report5 None, ''/data/WB'' \<mapsto> folder_b None]"
  let ?files' = "[''/data/W5'' \<mapsto> wafer_folder report5 (Some (Some table5)),
                  ''/data/WB'' \<mapsto> folder_b None]"
  have "parse_wafer_folder ''/data/W5'' ?files = Inr (5, ?files')"
    by (simp add: parse_wafer_folder_def wafer_folder_sel create_inner_database_def
        create_in_folder_built built5 report_lengths twist_ab)
  then have first: "parse_and_insert 1 (path_digest ''/data/W5'') ''/data/W5'' world_ab
      = (\<lparr>index = [], fs = ?files'\<rparr>, Inl (OperationalError, Values_for_columns 9 8))"
    using parse_and_insert_fails [of "''/data/W5''" world_ab 5 ?files']
    by (simp add: world_ab_def)
  have step1: "load_folder path_digest 1 ''/data/W5''
        (world_ab, \<lparr>total_processed = 0, success = 0, failed = 0\<rparr>)
      = Inr (\<lparr>index = [failed_row ''/data/W5'' ''W5'' (Values_for_columns 9 8) 1], fs = ?files'\<rparr>,
             \<lparr>total_processed = 1, success = 0, failed = 1\<rparr>)"
    using first
    by (simp add: load_folder_def Let_def world_ab_def select_wafer_def database_of_def
        wafer_folder_sel str_exn_def basename_examples insert_failed_fresh del: One_nat_def)
  have second: "parse_and_insert 1 (path_digest ''/data/WB'') ''/data/WB''
        \<lparr>index = [failed_row ''/data/W5'' ''W5'' (Values_for_columns 9 8) 1], fs = ?files'\<rparr>
      = (\<lparr>index = [failed_row ''/data/W5'' ''W5'' (Values_for_columns 9 8) 1], fs = ?files'\<rparr>,
         Inl (Exception, Images_missing))"
    by (simp add: parse_and_insert_def parse_wafer_folder_def folder_b_def)
  have ins: "insert_failed (path_digest ''/data/WB'') ''WB'' ''/data/WB'' Images_missing 1
        [failed_row ''/data/W5'' ''W5'' (Values_for_columns 9 8) 1]
      = Inr [failed_row ''/data/W5'' ''W5'' (Values_for_columns 9 8) 1,
             failed_row ''/data/WB'' ''WB'' Images_missing 1]"
    by (simp add: insert_failed_def sql_insert_def default_row_def failed_row_def path_digest_def)
  have step2: "load_folder path_digest 1 ''/data/WB''
        (\<lparr>index = [failed_row ''/data/W5'' ''W5'' (Values_for_columns 9 8) 1], fs = ?files'\<rparr>,
         \<lparr>total_processed = 1, success = 0, failed = 1\<rparr>)
      = Inr (world_ab_loaded None, \<lparr>total_processed = 2, success = 0, failed = 2\<rparr>)"
    using second ins
    by (simp add: load_folder_def Let_def select_wafer_def database_of_def failed_row_sel
        path_digest_def folder_b_def str_exn_def basename_examples world_ab_loaded_def
        del: One_nat_def)
  show ?thesis
    by (simp add: load_wafer_folders_def step1 step2 del: One_nat_def)
qed

lemma export_a:
  "export_wafer_kfl ''sha256:/data/W5'' False (world_ab_loaded db)
     = Inr (Inr \<lparr>file_name = ''W5_defects.kfl'',
               file_lines = [''KFL Export for W5'',
                             ''defect_id,center_x,center_y,ai_adc_type,adc_type'']\<rparr>)"
  by (simp add: export_wafer_kfl_def select_a failed_row_sel database_ab export_rows_def
      sql_where_type_differs no_row_differs5)

lemma export_b:
  "export_wafer_kfl ''sha256:/data/WB'' False (world_ab_loaded None) = Inr (Inl Inner_db_missing)"
  "export_wafer_kfl ''sha256:/data/WB'' False (world_ab_loaded (Some None))
     = Inl (OperationalError, No_such_table ''defect_info'')"
  by (simp_all add: export_wafer_kfl_def select_b failed_row_sel database_ab)

text \<open>
  C8 on two units discovered at time 1: \<open>W5\<close> with its detail store and \<open>WB\<close>, whose
  folder lacks an image, so that no store was built for it. As long as \<open>WB\<close> has no
  database file, the batch over both ids skips it and the archive holds the export of
  \<open>W5\<close>. A labeling call for \<open>WB\<close> fails, but \<open>sqlite3.connect\<close> has created an empty
  \<open>database.db\<close> in its folder. From then on the export of \<open>WB\<close> raises "no such table:
  defect_info" instead of returning an error, and the batch over both ids ends with that
  exception: no archive, no batch-level error, and the export of \<open>W5\<close> is lost.
\<close>

theorem batch_export_example:
  "load_wafer_folders path_digest 1 [''/data/W5'', ''/data/WB''] world_ab
     = Inr (world_ab_loaded None, \<lparr>total_processed = 2, success = 0, failed = 2\<rparr>)
   \<and> batch_export_kfl [''sha256:/data/W5'', ''sha256:/data/WB''] (world_ab_loaded None)
       = Inr (Inr [(''W5_defects.kfl'',
                    [''KFL Export for W5'',
                     ''defect_id,center_x,center_y,ai_adc_type,adc_type''])])
   \<and> save_label 2 ''sha256:/data/WB'' 0 ''Scratch'' None None (world_ab_loaded None)
       = (world_ab_loaded (Some None), Failure (No_such_table ''defect_info''))
   \<and> batch_export_kfl [''sha256:/data/W5'', ''sha256:/data/WB''] (world_ab_loaded (Some None))
       = Inl (OperationalError, No_such_table ''defect_info'')
   \<and> batch_export_kfl [''sha256:/data/WB''] (world_ab_loaded (Some None))
       = Inl (OperationalError, No_such_table ''defect_info'')"
proof -
  have batch1: "batch_export_kfl [''sha256:/data/W5'', ''sha256:/data/WB''] (world_ab_loaded None)
       = Inr (Inr [(''W5_defects.kfl'',
                    [''KFL Export for W5'',
                     ''defect_id,center_x,center_y,ai_adc_type,adc_type''])])"
    by (simp add: batch_export_kfl_def export_a export_b zip_entry_def)
  have touch: "save_label 2 ''sha256:/data/WB'' 0 ''Scratch'' None None (world_ab_loaded None)
       = (world_ab_loaded (Some None), Failure (No_such_table ''defect_info''))"
    by (simp add: save_label_def select_b)
       (simp add: world_ab_loaded_def folder_b_def failed_row_sel)
  have batch2: "batch_export_kfl [''sha256:/data/W5'', ''sha256:/data/WB'']
        (world_ab_loaded (Some None)) = Inl (OperationalError, No_such_table ''defect_info'')"
    by (simp add: batch_export_kfl_def export_a export_b)
  have batch3: "batch_export_kfl [''sha256:/data/WB''] (world_ab_loaded (Some None))
       = Inl (OperationalError, No_such_table ''defect_info'')"
    by (simp add: batch_export_kfl_def export_b)
  show ?thesis
    using load_ab batch1 touch batch2 batch3 by simp
qed

text \<open>The batch over both ids once the empty database file is there.\<close>

theorem batch_export_example_witness:
  "\<exists>w. save_label 2 ''sha256:/data/WB'' 0 ''Scratch'' None None (world_ab_loaded None)
          = (w, Failure (No_such_table ''defect_info''))
     \<and> database_of (fs w) ''/data/WB'' = Some None
     \<and> database_of (fs w) ''/data/W5'' = Some (Some table5)
     \<and> batch_export_kfl [''sha256:/data/W5'', ''sha256:/data/WB''] w
         = Inl (OperationalError, No_such_table ''defect_info'')"
  using batch_export_example by (simp add: database_ab)

end
